theory Spec2Isabelle
  imports Main
begin

section \<open>Exceptions\<close>

text \<open>
  Every exception the two operators can raise is a value. \<open>IOError\<close> stands for any
  instance of Python's \<open>IOError\<close> (an alias of \<open>OSError\<close>, so also \<open>PermissionError\<close>,
  \<open>FileNotFoundError\<close>, \<open>ConnectionError\<close>, \<open>TimeoutError\<close>); its argument names the
  concrete failure. \<open>FileExistsError\<close>, which the export raises itself, belongs to the
  same family. \<open>OtherError\<close> is an exception of any class outside that family.
\<close>

datatype error =
    KeyError string
  | AttributeError string
  | FileExistsError
  | IOError string
  | NoSuchTableError string
  | TypeError string
  | OtherError string

fun is_IOError :: "error \<Rightarrow> bool" where
  "is_IOError (IOError m) = True"
| "is_IOError FileExistsError = True"
| "is_IOError e = False"

section \<open>Table append: \<open>agnostic_sql_append.py\<close>\<close>

text \<open>
  The value \<open>getattr(sqlalchemy, v)\<close> returns, an expression of the select list
  (\<open>column(c)\<close> or \<open>cast(column(k), t)\<close>), and an entry of the destination list handed to
  \<open>from_select\<close>: a plain name in the explicit branch, a column object in the fallback
  branch, where \<open>main_columns\<close> is the very list \<open>column_names\<close>.
\<close>

datatype sqla_attr = SqlaAttr string

datatype expr = Column string | Cast expr sqla_attr

datatype dest = DName string | DColumn expr

datatype stmt = InsertFromSelect string "dest list" "expr list" string

text \<open>
  What the operator reads from outside: the table name \<open>get_table_name\<close> gives, the
  columns that reflecting a table through the engine yields (\<open>None\<close> when the table
  cannot be reflected), which names are attributes of the \<open>sqlalchemy\<close> module, whether
  \<open>cast\<close> raises when it is handed the attribute of that name (it does for an attribute
  that is no type, such as \<open>text\<close>), and the outcome of running a statement.
\<close>

record table =
  table_name :: string
  conn_id :: string
  database :: string
  schema :: string
  warehouse :: string

record naming =
  get_table_name :: "table \<Rightarrow> string"

record sql_world = naming +
  reflect :: "string \<Rightarrow> string list option"
  sqlalchemy_has :: "string \<Rightarrow> bool"
  cast_raises :: "string \<Rightarrow> error option"
  run_stmt :: "stmt \<Rightarrow> error option"

text \<open>
  \<open>[cast(column(k), getattr(sqlalchemy, v)) for k, v in casted_columns.items()]\<close>:
  the entries are visited in the mapping's order; for each one \<open>getattr\<close> runs, then
  \<open>cast\<close>, and the first of these calls that raises ends the comprehension.
\<close>

fun casted_fields_of :: "(string \<Rightarrow> bool) \<Rightarrow> (string \<Rightarrow> error option) \<Rightarrow> (string \<times> string) list
    \<Rightarrow> error + expr list" where
  "casted_fields_of has craises [] = Inr []"
| "casted_fields_of has craises ((k, v) # kvs) =
     (if has v
      then (case craises v of
              Some e \<Rightarrow> Inl e
            | None \<Rightarrow>
                (case casted_fields_of has craises kvs of
                   Inl e \<Rightarrow> Inl e
                 | Inr cs \<Rightarrow> Inr (Cast (Column k) (SqlaAttr v) # cs)))
      else Inl (AttributeError v))"

text \<open>
  \<open>SqlAppendOperator.append\<close>. Both tables are reflected first. In the fallback branch
  \<open>main_columns\<close> and \<open>column_names\<close> are one list object, so the later
  \<open>column_names.extend(casted_fields)\<close> reaches both.
\<close>

definition append :: "sql_world \<Rightarrow> table \<Rightarrow> string list \<Rightarrow> (string \<times> string) list \<Rightarrow> table
    \<Rightarrow> error + stmt" where
  "append w main_table columns casted_columns append_table =
     (case reflect w (get_table_name w main_table) of
        None \<Rightarrow> Inl (NoSuchTableError (get_table_name w main_table))
      | Some main_cols \<Rightarrow>
     (case reflect w (get_table_name w append_table) of
        None \<Rightarrow> Inl (NoSuchTableError (get_table_name w append_table))
      | Some append_cols \<Rightarrow>
     (case casted_fields_of (sqlalchemy_has w) (cast_raises w) casted_columns of
        Inl e \<Rightarrow> Inl e
      | Inr casted_fields \<Rightarrow>
          (let column_names = map Column columns;
               main_columns = map DName (map fst casted_columns) @ map DName columns
           in if length column_names + length casted_fields = 0
              then (let column_names' = map Column append_cols @ casted_fields
                    in Inr (InsertFromSelect (get_table_name w main_table)
                              (map DColumn column_names') column_names'
                              (get_table_name w append_table)))
              else Inr (InsertFromSelect (get_table_name w main_table) main_columns
                          (column_names @ casted_fields)
                          (get_table_name w append_table))))))"

text \<open>
  Modelled from the spec: \<open>SqlDecoratoratedOperator.execute\<close> is not among the
  sources; the spec says the statement built by \<open>append\<close> is executed against the
  connection. The second component lists the statements executed so far.
\<close>

definition SqlAppendOperator_execute :: "sql_world \<Rightarrow> table \<Rightarrow> table \<Rightarrow> string list
    \<Rightarrow> (string \<times> string) list \<Rightarrow> stmt list \<Rightarrow> (error + unit) \<times> stmt list" where
  "SqlAppendOperator_execute w main_table append_table columns casted_columns executed =
     (case append w main_table columns casted_columns append_table of
        Inl e \<Rightarrow> (Inl e, executed)
      | Inr s \<Rightarrow>
          (case run_stmt w s of
             Some e \<Rightarrow> (Inl e, executed @ [s])
           | None \<Rightarrow> (Inr (), executed @ [s])))"

text \<open>Reading a statement: its destination names and its select list.\<close>

fun expr_source :: "expr \<Rightarrow> string" where
  "expr_source (Column n) = n"
| "expr_source (Cast e t) = expr_source e"

fun dest_name :: "dest \<Rightarrow> string" where
  "dest_name (DName n) = n"
| "dest_name (DColumn e) = expr_source e"

fun insert_columns :: "stmt \<Rightarrow> string list" where
  "insert_columns (InsertFromSelect m ds es a) = map dest_name ds"

fun select_list :: "stmt \<Rightarrow> expr list" where
  "select_list (InsertFromSelect m ds es a) = es"

text \<open>The scenario of the spec: tables \<open>main\<close> and \<open>orders\<close>, both with columns (id, amount).\<close>

definition named :: "string \<Rightarrow> table" where
  "named n = \<lparr> table_name = n, conn_id = ''postgres_conn'', database = ''pagila'',
               schema = ''public'', warehouse = [] \<rparr>"

definition orders_world :: sql_world where
  "orders_world = \<lparr> get_table_name = table_name,
                    reflect = map_of [(''main'', [''id'', ''amount'']),
                                      (''orders'', [''id'', ''amount''])],
                    sqlalchemy_has = (\<lambda>v. v \<in> set [''Float'', ''Integer'', ''String'', ''text'']),
                    cast_raises = (\<lambda>v. if v = ''text'' then Some (TypeError ''text'') else None),
                    run_stmt = (\<lambda>s. None) \<rparr>"

section \<open>File export: \<open>agnostic_save_file.py\<close>\<close>

text \<open>
  The three hooks with their constructor arguments, the three credential providers of
  the scheme dictionary, the pandas routines of the serialiser dictionary and the values
  of their keyword options.
\<close>

datatype hook =
    PostgresHook string string
  | TempSnowflakeHook string string string string
  | BigQueryHook bool string

datatype provider = S3fs_creds | Gcs_client | None_lambda

datatype routine = To_parquet | To_csv | To_json

datatype pyval = PyBool bool | PyStr string

text \<open>
  What an invocation does to the outside, in order: a hook constructor runs, the table is
  read, a credential provider is called, the destination is opened for read or for write
  (mode \<open>wb\<close>, which is what creates or truncates it), a routine is called on the stream.
  Constructors and providers are taken to return.
\<close>

datatype 'df event =
    HookInit hook
  | ReadSql string hook
  | ProviderCall provider
  | OpenRead string
  | OpenWrite string
  | Serialise routine "(string \<times> pyval) list" 'df

record save_file =
  input_table :: table
  output_file_path :: string
  output_conn_id :: "string option"
  overwrite :: "bool option"
  output_file_format :: string

text \<open>
  What the operator reads from outside: the connection type registered for a connection
  id, the result of \<open>pd.read_sql\<close>, the scheme \<open>urlparse\<close> finds in a path, whether
  \<open>smart_open.open\<close> raises (\<open>None\<close>: the stream opened), and whether a pandas
  routine raises when called with given options on a table.
\<close>

record 'df file_world = naming +
  conn_type_of :: "string \<Rightarrow> string"
  read_sql :: "string \<Rightarrow> hook \<Rightarrow> error + 'df"
  urlparse_scheme :: "string \<Rightarrow> string"
  open_read :: "string \<Rightarrow> provider \<Rightarrow> error option"
  open_write :: "string \<Rightarrow> provider \<Rightarrow> error option"
  serialise_raises :: "routine \<Rightarrow> (string \<times> pyval) list \<Rightarrow> 'df \<Rightarrow> error option"

definition transport_params :: "(string \<times> provider) list" where
  "transport_params = [(''s3'', S3fs_creds), (''gs'', Gcs_client), ([], None_lambda)]"

definition serialiser :: "(string \<times> routine) list" where
  "serialiser = [(''parquet'', To_parquet), (''csv'', To_csv), (''json'', To_json),
                 (''ndjson'', To_json)]"

definition serialiser_params :: "(string \<times> (string \<times> pyval) list) list" where
  "serialiser_params =
     [(''csv'', [(''index'', PyBool False)]),
      (''json'', [(''orient'', PyStr ''records'')]),
      (''ndjson'', [(''orient'', PyStr ''records''), (''lines'', PyBool True)])]"

text \<open>\<open>serialiser_params.get(fmt, {})\<close>\<close>

definition serialiser_params_get :: "string \<Rightarrow> (string \<times> pyval) list" where
  "serialiser_params_get fmt = (case map_of serialiser_params fmt of None \<Rightarrow> [] | Some ps \<Rightarrow> ps)"

text \<open>
  \<open>SaveFile.file_exists\<close>: the scheme is looked up with \<open>[...]\<close>, the provider found is
  called, the path is opened for read; only an \<open>IOError\<close> is caught.
\<close>

definition file_exists :: "'df file_world \<Rightarrow> string \<Rightarrow> 'df event list
    \<Rightarrow> (error + bool) \<times> 'df event list" where
  "file_exists w path tr =
     (case map_of transport_params (urlparse_scheme w path) of
        None \<Rightarrow> (Inl (KeyError (urlparse_scheme w path)), tr)
      | Some p \<Rightarrow>
          (case open_read w path p of
             None \<Rightarrow> (Inr True, tr @ [ProviderCall p, OpenRead path])
           | Some e \<Rightarrow>
               (if is_IOError e
                then (Inr False, tr @ [ProviderCall p, OpenRead path])
                else (Inl e, tr @ [ProviderCall p, OpenRead path]))))"

text \<open>
  \<open>SaveFile.agnostic_write_file\<close>: the two dictionaries are built, the destination is
  opened for write, and inside the \<open>with\<close> block the format is looked up with \<open>[...]\<close>.
\<close>

definition agnostic_write_file :: "'df file_world \<Rightarrow> string \<Rightarrow> 'df \<Rightarrow> string \<Rightarrow> 'df event list
    \<Rightarrow> (error + unit) \<times> 'df event list" where
  "agnostic_write_file w fmt df path tr =
     (case map_of transport_params (urlparse_scheme w path) of
        None \<Rightarrow> (Inl (KeyError (urlparse_scheme w path)), tr)
      | Some p \<Rightarrow>
          (case open_write w path p of
             Some e \<Rightarrow> (Inl e, tr @ [ProviderCall p, OpenWrite path])
           | None \<Rightarrow>
               (case map_of serialiser fmt of
                  None \<Rightarrow> (Inl (KeyError fmt), tr @ [ProviderCall p, OpenWrite path])
                | Some r \<Rightarrow>
                    (case serialise_raises w r (serialiser_params_get fmt) df of
                       Some e \<Rightarrow>
                         (Inl e, tr @ [ProviderCall p, OpenWrite path,
                                       Serialise r (serialiser_params_get fmt) df])
                     | None \<Rightarrow>
                         (Inr (), tr @ [ProviderCall p, OpenWrite path,
                                       Serialise r (serialiser_params_get fmt) df])))))"

text \<open>
  \<open>SaveFile.execute\<close>. The dictionary literal builds all three hooks before \<open>.get\<close>
  picks one; \<open>None.get_sqlalchemy_engine()\<close> is the attribute error.
\<close>

definition input_hooks :: "table \<Rightarrow> (string \<times> hook) list" where
  "input_hooks t =
     [(''postgres'', PostgresHook (conn_id t) (database t)),
      (''snowflake'', TempSnowflakeHook (conn_id t) (database t) (schema t) (warehouse t)),
      (''bigquery'', BigQueryHook False (conn_id t))]"

definition SaveFile_execute :: "'df file_world \<Rightarrow> save_file \<Rightarrow> 'df event list
    \<Rightarrow> (error + unit) \<times> 'df event list" where
  "SaveFile_execute w self tr =
     (let conn_type = conn_type_of w (conn_id (input_table self));
          tr1 = tr @ map (\<lambda>kv. HookInit (snd kv)) (input_hooks (input_table self))
      in case map_of (input_hooks (input_table self)) conn_type of
           None \<Rightarrow> (Inl (AttributeError ''get_sqlalchemy_engine''), tr1)
         | Some input_hook \<Rightarrow>
             (let q = ''SELECT * FROM '' @ get_table_name w (input_table self)
              in case read_sql w q input_hook of
                   Inl e \<Rightarrow> (Inl e, tr1 @ [ReadSql q input_hook])
                 | Inr df \<Rightarrow>
                     (if overwrite self = Some True
                      then agnostic_write_file w (output_file_format self) df
                             (output_file_path self) (tr1 @ [ReadSql q input_hook])
                      else (case file_exists w (output_file_path self)
                                   (tr1 @ [ReadSql q input_hook]) of
                              (Inl e, tr2) \<Rightarrow> (Inl e, tr2)
                            | (Inr True, tr2) \<Rightarrow> (Inl FileExistsError, tr2)
                            | (Inr False, tr2) \<Rightarrow>
                                agnostic_write_file w (output_file_format self) df
                                  (output_file_path self) tr2))))"

text \<open>Kinds of events.\<close>

fun is_open_write :: "'df event \<Rightarrow> bool" where
  "is_open_write (OpenWrite p) = True"
| "is_open_write ev = False"

fun is_serialise :: "'df event \<Rightarrow> bool" where
  "is_serialise (Serialise r ps df) = True"
| "is_serialise ev = False"

fun is_open_read :: "'df event \<Rightarrow> bool" where
  "is_open_read (OpenRead p) = True"
| "is_open_read ev = False"

text \<open>
  A local export: a Postgres connection, a three-row table, and paths without a scheme.
  \<open>/tmp/old.csv\<close> exists, \<open>/tmp/locked.csv\<close> cannot be read for lack of permission,
  and every other path is absent.
\<close>

definition local_world :: "string list list file_world" where
  "local_world =
     \<lparr> get_table_name = table_name,
       conn_type_of = (\<lambda>c. if c = ''postgres_conn'' then ''postgres'' else ''mysql''),
       read_sql = (\<lambda>q h. Inr [[''1'', ''a''], [''2'', ''b''], [''3'', ''c'']]),
       urlparse_scheme = (\<lambda>p. if take 7 p = ''http://'' then ''http'' else []),
       open_read = (\<lambda>p t. if p = ''/tmp/old.csv'' then None
                          else if p = ''/tmp/locked.csv'' then Some (IOError ''PermissionError'')
                          else Some (IOError ''FileNotFoundError'')),
       open_write = (\<lambda>p t. None),
       serialise_raises = (\<lambda>r ps df. None) \<rparr>"

definition job :: "string \<Rightarrow> string \<Rightarrow> bool option \<Rightarrow> string \<Rightarrow> save_file" where
  "job c path ov fmt =
     \<lparr> input_table = named ''orders'' \<lparr> conn_id := c \<rparr>,
       output_file_path = path, output_conn_id = None, overwrite = ov,
       output_file_format = fmt \<rparr>"

section \<open>The pandas routines\<close>

text \<open>
  A table in memory: its column names, one index label for each row, and the rows of
  cells. What a routine leaves in the destination: delimited text with a header and
  records, one JSON array of objects, or JSON objects separated by newlines.
\<close>

datatype cell = IntCell int | StrCell string

record frame =
  frame_columns :: "string list"
  frame_index :: "string list"
  frame_rows :: "cell list list"

datatype content =
    CsvText "string list" "cell list list"
  | JsonArray "(string \<times> cell) list list"
  | JsonLines "(string \<times> cell) list list"
  | Unmodelled

text \<open>
  Modelled from the spec: the records of a table, one object for each row, pairing the
  column names with the row's cells. The index labels are no part of a record.
\<close>

definition frame_records :: "frame \<Rightarrow> (string \<times> cell) list list" where
  "frame_records fr = map (zip (frame_columns fr)) (frame_rows fr)"

text \<open>
  Modelled from the spec: \<open>DataFrame.to_json\<close> belongs to pandas and is not among the
  sources. The spec says that record-array JSON uses the array-of-objects orientation and
  that line-delimited JSON is one JSON object per line, with no enclosing array brackets
  and no index field. Other orientations are left unmodelled.
\<close>

definition to_json :: "(string \<times> pyval) list \<Rightarrow> frame \<Rightarrow> content" where
  "to_json opts fr =
     (if map_of opts ''orient'' = Some (PyStr ''records'')
      then (if map_of opts ''lines'' = Some (PyBool True)
            then JsonLines (frame_records fr)
            else JsonArray (frame_records fr))
      else Unmodelled)"

text \<open>
  Modelled from the spec: \<open>DataFrame.to_csv\<close> belongs to pandas and is not among the
  sources. The spec says that delimited text with the index disabled has no row-index
  column. The output with the index enabled is left unmodelled.
\<close>

definition to_csv :: "(string \<times> pyval) list \<Rightarrow> frame \<Rightarrow> content" where
  "to_csv opts fr =
     (if map_of opts ''index'' = Some (PyBool False)
      then CsvText (frame_columns fr) (frame_rows fr)
      else Unmodelled)"

text \<open>
  Modelled from the spec: what a call of a routine writes. The spec says nothing about the
  bytes of the columnar binary format.
\<close>

fun pandas_output :: "routine \<Rightarrow> (string \<times> pyval) list \<Rightarrow> frame \<Rightarrow> content" where
  "pandas_output To_json opts fr = to_json opts fr"
| "pandas_output To_csv opts fr = to_csv opts fr"
| "pandas_output To_parquet opts fr = Unmodelled"

text \<open>The content of the destination after a run: what the last routine called wrote.\<close>

fun written :: "frame event \<Rightarrow> content option" where
  "written (Serialise r opts fr) = Some (pandas_output r opts fr)"
| "written ev = None"

definition destination_content :: "frame event list \<Rightarrow> content option" where
  "destination_content tr =
     (case rev (filter is_serialise tr) of [] \<Rightarrow> None | ev # evs \<Rightarrow> written ev)"

text \<open>
  An export to object storage of a three-row table with columns (id, amount). The
  endpoint of \<open>s3://bucket/down.csv\<close> cannot be reached, for which the S3 client raises
  an exception that is no \<open>IOError\<close>; the storage client for \<open>gs://bucket/missing.csv\<close>
  raises its own not-found exception; every other object is absent.
\<close>

definition orders_frame :: frame where
  "orders_frame =
     \<lparr> frame_columns = [''id'', ''amount''],
       frame_index = [''0'', ''1'', ''2''],
       frame_rows = [[IntCell 1, IntCell 10], [IntCell 2, IntCell 25], [IntCell 3, IntCell 7]] \<rparr>"

definition cloud_world :: "frame file_world" where
  "cloud_world =
     \<lparr> get_table_name = table_name,
       conn_type_of = (\<lambda>c. ''postgres''),
       read_sql = (\<lambda>q h. Inr orders_frame),
       urlparse_scheme = (\<lambda>p. if take 5 p = ''s3://'' then ''s3''
                              else if take 5 p = ''gs://'' then ''gs'' else []),
       open_read = (\<lambda>p t. if p = ''s3://bucket/down.csv''
                          then Some (OtherError ''EndpointConnectionError'')
                          else if p = ''gs://bucket/missing.csv''
                          then Some (OtherError ''NotFound'')
                          else Some (IOError ''FileNotFoundError'')),
       open_write = (\<lambda>p t. None),
       serialise_raises = (\<lambda>r ps df. None) \<rparr>"

section \<open>Properties of the append statement\<close>


lemma casted_fields_of_fails:
  "(k, v) \<in> set kvs \<Longrightarrow> \<not> has v \<Longrightarrow> \<exists>e. casted_fields_of has craises kvs = Inl e"
proof (induction kvs)
  case Nil
  then show ?case by simp
next
  case (Cons kv kvs)
  obtain k0 v0 where kv: "kv = (k0, v0)" by (cases kv)
  show ?case
  proof (cases "has v0 \<and> craises v0 = None")
    case False
    with kv show ?thesis by (auto split: option.splits)
  next
    case True
    with Cons.prems kv have "(k, v) \<in> set kvs" by auto
    from Cons.IH [OF this Cons.prems(2)] obtain e where
      "casted_fields_of has craises kvs = Inl e" by blast
    with True kv show ?thesis by simp
  qed
qed

lemma casted_fields_of_first_bad:
  "\<forall>kv \<in> set pre. has (snd kv) \<and> craises (snd kv) = None \<Longrightarrow> \<not> has v \<Longrightarrow>
   casted_fields_of has craises (pre @ (k, v) # post) = Inl (AttributeError v)"
  by (induction pre) (auto split: prod.splits)

text \<open>
  Claim C1. In the scenario of the spec (source table \<open>orders\<close> with columns (id, amount),
  \<open>columns=["id"]\<close>, \<open>casted_columns={"amount": "Float"}\<close>) the claim wants the select
  list (CAST(amount AS FLOAT), id) against the destination list (amount, id). The statement
  the code builds has that destination list, but its select list is
  (id, CAST(amount AS FLOAT)): the first selected expression reads \<open>id\<close> while the first
  destination column is \<open>amount\<close>.
\<close>

theorem append_orders_select_order:
  "append orders_world (named ''main'') [''id''] [(''amount'', ''Float'')] (named ''orders'')
     = Inr (InsertFromSelect ''main'' [DName ''amount'', DName ''id'']
              [Column ''id'', Cast (Column ''amount'') (SqlaAttr ''Float'')] ''orders'')
   \<and> insert_columns (InsertFromSelect ''main'' [DName ''amount'', DName ''id'']
              [Column ''id'', Cast (Column ''amount'') (SqlaAttr ''Float'')] ''orders'')
       = [''amount'', ''id'']
   \<and> map expr_source (select_list (InsertFromSelect ''main'' [DName ''amount'', DName ''id'']
              [Column ''id'', Cast (Column ''amount'') (SqlaAttr ''Float'')] ''orders''))
       = [''id'', ''amount'']"
  by (simp add: append_def orders_world_def named_def)

text \<open>
  Claim C5. When the explicit column list and the cast map are both empty (and both
  tables reflect), the statement selects exactly the columns reflected from the append
  table, in the reflected order, each as a plain column with no cast, from the append
  table; and the destination list is that same list of columns.
\<close>

theorem append_fallback_columns:
  assumes "reflect w (get_table_name w main_table) = Some main_cols"
    and "reflect w (get_table_name w append_table) = Some append_cols"
  shows "\<exists>ds es. append w main_table [] [] append_table
                   = Inr (InsertFromSelect (get_table_name w main_table) ds es
                            (get_table_name w append_table))
               \<and> es = map Column append_cols
               \<and> ds = map DColumn es
               \<and> map dest_name ds = append_cols"
  using assms by (simp add: append_def comp_def)

theorem append_fallback_columns_witness:
  "reflect orders_world (get_table_name orders_world (named ''main'')) = Some [''id'', ''amount'']
   \<and> reflect orders_world (get_table_name orders_world (named ''orders'')) = Some [''id'', ''amount'']
   \<and> append orders_world (named ''main'') [] [] (named ''orders'')
       = Inr (InsertFromSelect ''main'' [DColumn (Column ''id''), DColumn (Column ''amount'')]
                [Column ''id'', Column ''amount''] ''orders'')"
proof -
  have m: "reflect orders_world (get_table_name orders_world (named ''main''))
             = Some [''id'', ''amount'']"
    by (simp add: orders_world_def named_def)
  have a: "reflect orders_world (get_table_name orders_world (named ''orders''))
             = Some [''id'', ''amount'']"
    by (simp add: orders_world_def named_def)
  from append_fallback_columns [OF m a] have
    "append orders_world (named ''main'') [] [] (named ''orders'')
       = Inr (InsertFromSelect (get_table_name orders_world (named ''main''))
                (map DColumn (map Column [''id'', ''amount'']))
                (map Column [''id'', ''amount''])
                (get_table_name orders_world (named ''orders'')))"
    by auto
  with m a show ?thesis by (simp add: orders_world_def named_def)
qed



text \<open>
  A cast type name that \<open>sqlalchemy\<close> lacks does not always surface as the attribute
  lookup error: when the main table cannot be reflected the failure is the reflection
  error, and when an earlier entry of the cast map names an attribute that is no type the
  failure is the error \<open>cast\<close> raises for it.
\<close>

theorem append_unknown_cast_type_other_errors:
  "\<not> sqlalchemy_has orders_world ''Flaot''
   \<and> append orders_world (named ''nope'') [''id''] [(''amount'', ''Flaot'')] (named ''orders'')
       = Inl (NoSuchTableError ''nope'')
   \<and> append orders_world (named ''main'') [] [(''amount'', ''text''), (''id'', ''Flaot'')]
         (named ''orders'')
       = Inl (TypeError ''text'')"
  by (simp add: append_def orders_world_def named_def)

text \<open>
  Claim C8, as amended. When some entry of the cast map names a type that is not an
  attribute of the \<open>sqlalchemy\<close> module, the append operation fails and no statement is
  executed: the list of executed statements is left as it was. When both tables have been
  reflected and every entry before that one in the cast map names an attribute that
  \<open>cast\<close> accepts, the failure is the attribute lookup error on that type name, raised
  while the statement is constructed.
\<close>

theorem append_unknown_cast_type:
  assumes "(k, v) \<in> set casted_columns"
    and "\<not> sqlalchemy_has w v"
  shows "(\<exists>e. append w main_table columns casted_columns append_table = Inl e)
       \<and> (\<exists>e. SqlAppendOperator_execute w main_table append_table columns casted_columns executed
                = (Inl e, executed))
       \<and> (reflect w (get_table_name w main_table) \<noteq> None
            \<and> reflect w (get_table_name w append_table) \<noteq> None
            \<and> casted_columns = pre @ (k, v) # post
            \<and> (\<forall>kv \<in> set pre. sqlalchemy_has w (snd kv) \<and> cast_raises w (snd kv) = None)
          \<longrightarrow> append w main_table columns casted_columns append_table
                = Inl (AttributeError v)
              \<and> SqlAppendOperator_execute w main_table append_table columns casted_columns
                    executed
                = (Inl (AttributeError v), executed))"
proof -
  from casted_fields_of_fails [of k v casted_columns "sqlalchemy_has w" "cast_raises w", OF assms]
  obtain e0 where e0: "casted_fields_of (sqlalchemy_has w) (cast_raises w) casted_columns = Inl e0"
    by blast
  have fails: "\<exists>e. append w main_table columns casted_columns append_table = Inl e"
    using e0 by (simp add: append_def split: option.splits)
  then have ex: "\<exists>e. SqlAppendOperator_execute w main_table append_table columns casted_columns
                    executed = (Inl e, executed)"
    by (auto simp: SqlAppendOperator_execute_def)
  have first: "reflect w (get_table_name w main_table) \<noteq> None
            \<and> reflect w (get_table_name w append_table) \<noteq> None
            \<and> casted_columns = pre @ (k, v) # post
            \<and> (\<forall>kv \<in> set pre. sqlalchemy_has w (snd kv) \<and> cast_raises w (snd kv) = None)
          \<longrightarrow> append w main_table columns casted_columns append_table
                = Inl (AttributeError v)"
  proof (intro impI, elim conjE)
    assume m: "reflect w (get_table_name w main_table) \<noteq> None"
      and a: "reflect w (get_table_name w append_table) \<noteq> None"
      and c: "casted_columns = pre @ (k, v) # post"
      and p: "\<forall>kv \<in> set pre. sqlalchemy_has w (snd kv) \<and> cast_raises w (snd kv) = None"
    from casted_fields_of_first_bad [OF p assms(2), of k post] c
    have "casted_fields_of (sqlalchemy_has w) (cast_raises w) casted_columns
            = Inl (AttributeError v)" by simp
    with m a show "append w main_table columns casted_columns append_table
                = Inl (AttributeError v)"
      by (auto simp: append_def)
  qed
  from fails ex first show ?thesis
    by (auto simp: SqlAppendOperator_execute_def)
qed

theorem append_unknown_cast_type_witness:
  "(''id'', ''Flaot'') \<in> set [(''amount'', ''Float''), (''id'', ''Flaot'')]
   \<and> \<not> sqlalchemy_has orders_world ''Flaot''
   \<and> reflect orders_world (get_table_name orders_world (named ''main'')) \<noteq> None
   \<and> reflect orders_world (get_table_name orders_world (named ''orders'')) \<noteq> None
   \<and> sqlalchemy_has orders_world ''Float'' \<and> cast_raises orders_world ''Float'' = None
   \<and> append orders_world (named ''main'') [] [(''amount'', ''Float''), (''id'', ''Flaot'')]
         (named ''orders'')
       = Inl (AttributeError ''Flaot'')
   \<and> SqlAppendOperator_execute orders_world (named ''main'') (named ''orders'') []
         [(''amount'', ''Float''), (''id'', ''Flaot'')] []
       = (Inl (AttributeError ''Flaot''), [])"
proof -
  have i: "(''id'', ''Flaot'') \<in> set [(''amount'', ''Float''), (''id'', ''Flaot'')]" by simp
  have n: "\<not> sqlalchemy_has orders_world ''Flaot''" by (simp add: orders_world_def)
  have r: "reflect orders_world (get_table_name orders_world (named ''main'')) \<noteq> None"
    "reflect orders_world (get_table_name orders_world (named ''orders'')) \<noteq> None"
    by (simp_all add: orders_world_def named_def)
  have p: "\<forall>kv \<in> set [(''amount'', ''Float'')].
         sqlalchemy_has orders_world (snd kv) \<and> cast_raises orders_world (snd kv) = None"
    by (simp add: orders_world_def)
  have c: "[(''amount'', ''Float''), (''id'', ''Flaot'')] = [(''amount'', ''Float'')] @ (''id'', ''Flaot'') # []"
    by simp
  from append_unknown_cast_type [OF i n, of "named ''main''" "[]" "named ''orders''" "[]"
         "[(''amount'', ''Float'')]" "[]"] r p c
  have "append orders_world (named ''main'') [] [(''amount'', ''Float''), (''id'', ''Flaot'')]
         (named ''orders'')
       = Inl (AttributeError ''Flaot'')
   \<and> SqlAppendOperator_execute orders_world (named ''main'') (named ''orders'') []
         [(''amount'', ''Float''), (''id'', ''Flaot'')] []
       = (Inl (AttributeError ''Flaot''), [])"
    by blast
  moreover have "sqlalchemy_has orders_world ''Float'' \<and> cast_raises orders_world ''Float'' = None"
    by (simp add: orders_world_def)
  ultimately show ?thesis using i n r by blast
qed

section \<open>Properties of the file export\<close>

lemma agnostic_write_file_open_read:
  "filter is_open_read (snd (agnostic_write_file w fmt df path tr)) = filter is_open_read tr"
  by (auto simp: agnostic_write_file_def split: option.splits)

lemma file_exists_no_write:
  "filter is_open_write (snd (file_exists w path tr)) = filter is_open_write tr
   \<and> filter is_serialise (snd (file_exists w path tr)) = filter is_serialise tr"
  by (auto simp: file_exists_def split: option.splits if_splits)

lemma agnostic_write_file_unknown_format:
  assumes "map_of serialiser fmt = None"
  shows "(\<exists>e. fst (agnostic_write_file w fmt df path tr) = Inl e)
       \<and> filter is_serialise (snd (agnostic_write_file w fmt df path tr)) = filter is_serialise tr"
  using assms by (auto simp: agnostic_write_file_def split: option.splits)

lemma serialiser_unknown:
  "fmt \<notin> {''csv'', ''parquet'', ''json'', ''ndjson''} \<Longrightarrow> map_of serialiser fmt = None"
  by (simp add: serialiser_def)

lemma SaveFile_execute_loaded:
  assumes "map_of (input_hooks (input_table self)) (conn_type_of w (conn_id (input_table self))) = Some h"
    and "read_sql w (''SELECT * FROM '' @ get_table_name w (input_table self)) h = Inr df"
  shows "SaveFile_execute w self tr =
     (if overwrite self = Some True
      then agnostic_write_file w (output_file_format self) df (output_file_path self)
             (tr @ map (\<lambda>kv. HookInit (snd kv)) (input_hooks (input_table self))
                 @ [ReadSql (''SELECT * FROM '' @ get_table_name w (input_table self)) h])
      else (case file_exists w (output_file_path self)
                   (tr @ map (\<lambda>kv. HookInit (snd kv)) (input_hooks (input_table self))
                       @ [ReadSql (''SELECT * FROM '' @ get_table_name w (input_table self)) h]) of
              (Inl e, tr2) \<Rightarrow> (Inl e, tr2)
            | (Inr True, tr2) \<Rightarrow> (Inl FileExistsError, tr2)
            | (Inr False, tr2) \<Rightarrow>
                agnostic_write_file w (output_file_format self) df (output_file_path self) tr2))"
  using assms by (simp add: SaveFile_execute_def Let_def)

lemma SaveFile_execute_not_loaded:
  "map_of (input_hooks (input_table self)) (conn_type_of w (conn_id (input_table self))) = None
   \<or> (\<exists>h e. map_of (input_hooks (input_table self)) (conn_type_of w (conn_id (input_table self))) = Some h
         \<and> read_sql w (''SELECT * FROM '' @ get_table_name w (input_table self)) h = Inl e)
   \<Longrightarrow> (\<exists>e. fst (SaveFile_execute w self tr) = Inl e)
     \<and> filter is_serialise (snd (SaveFile_execute w self tr)) = filter is_serialise tr
     \<and> filter is_open_write (snd (SaveFile_execute w self tr)) = filter is_open_write tr"
  by (auto simp: SaveFile_execute_def Let_def input_hooks_def)

lemma hooks_no_write:
  "filter is_serialise (tr @ map (\<lambda>kv. HookInit (snd kv)) (input_hooks t) @ [ReadSql q h]) = filter is_serialise tr"
  "filter is_open_write (tr @ map (\<lambda>kv. HookInit (snd kv)) (input_hooks t) @ [ReadSql q h]) = filter is_open_write tr"
  "filter is_open_read (tr @ map (\<lambda>kv. HookInit (snd kv)) (input_hooks t) @ [ReadSql q h]) = filter is_open_read tr"
  by (simp_all add: input_hooks_def)

lemma local_hook:
  "map_of (input_hooks (input_table (job ''postgres_conn'' path ov fmt)))
     (conn_type_of local_world (conn_id (input_table (job ''postgres_conn'' path ov fmt))))
   = Some (PostgresHook ''postgres_conn'' ''pagila'')"
  by (simp add: job_def named_def input_hooks_def local_world_def)

lemma local_read:
  "read_sql local_world (''SELECT * FROM '' @ get_table_name local_world (input_table (job c path ov fmt))) h
   = Inr [[''1'', ''a''], [''2'', ''b''], [''3'', ''c'']]"
  by (simp add: local_world_def)

lemma local_table_name:
  "get_table_name local_world (input_table (job c path ov fmt)) = ''orders''"
  by (simp add: local_world_def job_def named_def)

lemma local_hooks_trace:
  "map (\<lambda>kv. HookInit (snd kv)) (input_hooks (input_table (job ''postgres_conn'' path ov fmt)))
   = [HookInit (PostgresHook ''postgres_conn'' ''pagila''),
      HookInit (TempSnowflakeHook ''postgres_conn'' ''pagila'' ''public'' []),
      HookInit (BigQueryHook False ''postgres_conn'')]"
  by (simp add: job_def named_def input_hooks_def)

lemma agnostic_write_file_known_scheme:
  "map_of transport_params (urlparse_scheme w path) = Some p \<Longrightarrow>
   \<exists>rest. snd (agnostic_write_file w fmt df path tr) = tr @ [ProviderCall p, OpenWrite path] @ rest"
  by (auto simp: agnostic_write_file_def split: option.splits)

lemma agnostic_write_file_ok:
  "map_of transport_params (urlparse_scheme w path) = Some p \<Longrightarrow> open_write w path p = None \<Longrightarrow>
   map_of serialiser fmt = Some r \<Longrightarrow> serialise_raises w r (serialiser_params_get fmt) df = None \<Longrightarrow>
   agnostic_write_file w fmt df path tr
     = (Inr (), tr @ [ProviderCall p, OpenWrite path, Serialise r (serialiser_params_get fmt) df])"
  by (simp add: agnostic_write_file_def)

lemma file_exists_known_scheme:
  "map_of transport_params (urlparse_scheme w path) = Some p \<Longrightarrow>
   file_exists w path tr =
     (case open_read w path p of
        None \<Rightarrow> Inr True
      | Some e \<Rightarrow> if is_IOError e then Inr False else Inl e,
      tr @ [ProviderCall p, OpenRead path])"
  by (simp add: file_exists_def split: option.splits)

lemma cloud_hook:
  "map_of (input_hooks (input_table (job c path ov fmt)))
     (conn_type_of cloud_world (conn_id (input_table (job c path ov fmt))))
   = Some (PostgresHook c ''pagila'')"
  by (simp add: job_def named_def input_hooks_def cloud_world_def)

lemma cloud_read:
  "read_sql cloud_world (''SELECT * FROM '' @ get_table_name cloud_world (input_table (job c path ov fmt))) h
   = Inr orders_frame"
  by (simp add: cloud_world_def)

lemma cloud_table_name:
  "get_table_name cloud_world (input_table (job c path ov fmt)) = ''orders''"
  by (simp add: cloud_world_def job_def named_def)

lemma job_fields:
  "output_file_format (job c path ov fmt) = fmt"
  "output_file_path (job c path ov fmt) = path"
  "overwrite (job c path ov fmt) = ov"
  by (simp_all add: job_def)

lemma agnostic_write_file_extends:
  "\<exists>rest. snd (agnostic_write_file w fmt df path tr) = tr @ rest"
  by (auto simp: agnostic_write_file_def split: option.splits)

lemma file_exists_extends:
  "\<exists>rest. snd (file_exists w path tr) = tr @ rest"
  by (auto simp: file_exists_def split: option.splits)

text \<open>
  An unknown format does not keep the destination untouched: with \<open>overwrite=True\<close> and
  the format \<open>xml\<close> the destination is opened for write before the lookup of the format
  fails. And the failure is not always a lookup error: against an existing destination
  without \<open>overwrite\<close> it is the already-exists error.
\<close>

theorem export_unknown_format_opens_destination:
  "output_file_format (job ''postgres_conn'' ''/tmp/out.xml'' (Some True) ''xml'')
     \<notin> {''csv'', ''parquet'', ''json'', ''ndjson''}
   \<and> SaveFile_execute local_world (job ''postgres_conn'' ''/tmp/out.xml'' (Some True) ''xml'') []
     = (Inl (KeyError ''xml''),
      [HookInit (PostgresHook ''postgres_conn'' ''pagila''),
       HookInit (TempSnowflakeHook ''postgres_conn'' ''pagila'' ''public'' []),
       HookInit (BigQueryHook False ''postgres_conn''),
       ReadSql ''SELECT * FROM orders'' (PostgresHook ''postgres_conn'' ''pagila''),
       ProviderCall None_lambda, OpenWrite ''/tmp/out.xml''])
   \<and> filter is_open_write
        (snd (SaveFile_execute local_world (job ''postgres_conn'' ''/tmp/out.xml'' (Some True) ''xml'') []))
      = [OpenWrite ''/tmp/out.xml'']
   \<and> fst (SaveFile_execute local_world (job ''postgres_conn'' ''/tmp/old.csv'' (Some False) ''xml'') [])
      = Inl FileExistsError"
  by (simp add: SaveFile_execute_def Let_def job_def named_def input_hooks_def local_world_def
        agnostic_write_file_def file_exists_def transport_params_def serialiser_def)

text \<open>
  Claim C2, as amended. For every export whose format selector is not one of \<open>csv\<close>,
  \<open>parquet\<close>, \<open>json\<close>, \<open>ndjson\<close>, the operation fails and no serialisation routine
  is called, so no data is written. In the write step, once the scheme is a known one
  and the destination has opened for write, the failure is the lookup error on the
  format, raised after that open.
\<close>

theorem export_unknown_format:
  assumes "output_file_format self \<notin> {''csv'', ''parquet'', ''json'', ''ndjson''}"
  shows "(\<exists>e. fst (SaveFile_execute w self tr) = Inl e)
       \<and> filter is_serialise (snd (SaveFile_execute w self tr)) = filter is_serialise tr
       \<and> (map_of transport_params (urlparse_scheme w path) = Some p \<and> open_write w path p = None
          \<longrightarrow> agnostic_write_file w (output_file_format self) df path tr'
              = (Inl (KeyError (output_file_format self)), tr' @ [ProviderCall p, OpenWrite path]))"
proof -
  let ?q = "''SELECT * FROM '' @ get_table_name w (input_table self)"
  let ?tr2 = "tr @ map (\<lambda>kv. HookInit (snd kv)) (input_hooks (input_table self))"
  have unk: "map_of serialiser (output_file_format self) = None"
    using assms by (rule serialiser_unknown)
  have part3: "map_of transport_params (urlparse_scheme w path) = Some p \<and> open_write w path p = None
          \<longrightarrow> agnostic_write_file w (output_file_format self) df path tr'
              = (Inl (KeyError (output_file_format self)), tr' @ [ProviderCall p, OpenWrite path])"
    using unk by (simp add: agnostic_write_file_def)
  have part12: "(\<exists>e. fst (SaveFile_execute w self tr) = Inl e)
       \<and> filter is_serialise (snd (SaveFile_execute w self tr)) = filter is_serialise tr"
  proof (cases "\<exists>h df. map_of (input_hooks (input_table self)) (conn_type_of w (conn_id (input_table self))) = Some h
         \<and> read_sql w ?q h = Inr df")
    case False
    then have "map_of (input_hooks (input_table self)) (conn_type_of w (conn_id (input_table self))) = None
      \<or> (\<exists>h e. map_of (input_hooks (input_table self)) (conn_type_of w (conn_id (input_table self))) = Some h
         \<and> read_sql w ?q h = Inl e)"
      by (metis not_Some_eq sum.exhaust)
    from SaveFile_execute_not_loaded [OF this] show ?thesis by blast
  next
    case True
    then obtain h df0 where
      h: "map_of (input_hooks (input_table self)) (conn_type_of w (conn_id (input_table self))) = Some h"
      and r: "read_sql w ?q h = Inr df0" by blast
    note ex = SaveFile_execute_loaded [OF h r, of tr]
    note aw = agnostic_write_file_unknown_format [OF unk]
    show ?thesis
    proof (cases "overwrite self = Some True")
      case True
      with ex aw [of w df0 "output_file_path self" "?tr2 @ [ReadSql ?q h]"] show ?thesis
        by (simp add: hooks_no_write)
    next
      case False
      obtain r0 t0 where fe: "file_exists w (output_file_path self) (?tr2 @ [ReadSql ?q h]) = (r0, t0)"
        by (cases "file_exists w (output_file_path self) (?tr2 @ [ReadSql ?q h])")
      from file_exists_no_write [of w "output_file_path self" "?tr2 @ [ReadSql ?q h]"] fe
      have t0: "filter is_serialise t0 = filter is_serialise tr"
        by (simp add: hooks_no_write)
      show ?thesis
      proof (cases r0)
        case (Inl e)
        with ex False fe t0 show ?thesis by simp
      next
        case (Inr b)
        with ex False fe t0 aw [of w df0 "output_file_path self" t0] show ?thesis
          by (cases b) simp_all
      qed
    qed
  qed
  from part12 part3 show ?thesis by blast
qed

theorem export_unknown_format_witness:
  "output_file_format (job ''postgres_conn'' ''/tmp/new.xml'' None ''xml'')
     \<notin> {''csv'', ''parquet'', ''json'', ''ndjson''}
   \<and> map_of transport_params (urlparse_scheme local_world ''/tmp/new.xml'') = Some None_lambda
   \<and> open_write local_world ''/tmp/new.xml'' None_lambda = None
   \<and> (\<exists>e. fst (SaveFile_execute local_world (job ''postgres_conn'' ''/tmp/new.xml'' None ''xml'') []) = Inl e)
   \<and> filter is_serialise (snd (SaveFile_execute local_world (job ''postgres_conn'' ''/tmp/new.xml'' None ''xml'') [])) = []
   \<and> agnostic_write_file local_world ''xml'' [[''1'']] ''/tmp/new.xml'' []
       = (Inl (KeyError ''xml''), [ProviderCall None_lambda, OpenWrite ''/tmp/new.xml''])"
proof -
  have f: "output_file_format (job ''postgres_conn'' ''/tmp/new.xml'' None ''xml'')
     \<notin> {''csv'', ''parquet'', ''json'', ''ndjson''}"
    by (simp add: job_def)
  have s: "map_of transport_params (urlparse_scheme local_world ''/tmp/new.xml'') = Some None_lambda"
    by (simp add: local_world_def transport_params_def)
  have o: "open_write local_world ''/tmp/new.xml'' None_lambda = None"
    by (simp add: local_world_def)
  have fm: "output_file_format (job ''postgres_conn'' ''/tmp/new.xml'' None ''xml'') = ''xml''"
    by (simp add: job_def)
  from export_unknown_format [OF f, of local_world "[]" "''/tmp/new.xml''" None_lambda "[[''1'']]" "[]"] f s o fm
  show ?thesis by simp
qed

text \<open>
  Not every error of the open-for-read is turned into "does not exist": when the endpoint
  of an S3 destination cannot be reached, the client's exception is no \<open>IOError\<close>, the
  probe does not catch it, and the export ends with it instead of writing.
\<close>

theorem probe_other_error_escapes:
  "open_read cloud_world ''s3://bucket/down.csv'' S3fs_creds
     = Some (OtherError ''EndpointConnectionError'')
   \<and> file_exists cloud_world ''s3://bucket/down.csv'' []
       = (Inl (OtherError ''EndpointConnectionError''),
          [ProviderCall S3fs_creds, OpenRead ''s3://bucket/down.csv''])
   \<and> fst (file_exists cloud_world ''s3://bucket/down.csv'' []) \<noteq> Inr False
   \<and> SaveFile_execute cloud_world (job ''postgres_conn'' ''s3://bucket/down.csv'' (Some False) ''csv'') []
       = (Inl (OtherError ''EndpointConnectionError''),
          [HookInit (PostgresHook ''postgres_conn'' ''pagila''),
           HookInit (TempSnowflakeHook ''postgres_conn'' ''pagila'' ''public'' []),
           HookInit (BigQueryHook False ''postgres_conn''),
           ReadSql ''SELECT * FROM orders'' (PostgresHook ''postgres_conn'' ''pagila''),
           ProviderCall S3fs_creds, OpenRead ''s3://bucket/down.csv''])"
  by (simp add: SaveFile_execute_def Let_def job_def named_def input_hooks_def cloud_world_def
        file_exists_def transport_params_def)

text \<open>
  Claim C3, as amended. For every \<open>IOError\<close> raised while the destination is opened for
  read during the existence probe (which covers the permission and network failures of the
  \<open>OSError\<close> family), the probe reports the destination as not existing, and an export
  without \<open>overwrite\<close> whose table was loaded therefore proceeds to the write: the
  destination is opened for write next, and when that open succeeds, the format is known
  and the routine returns, the table is serialised and the export succeeds. An exception of
  any other class is not caught: it leaves the probe and ends the export before any write.
  The probe returns true exactly when the scheme is a known one and the open-for-read
  succeeds.
\<close>

theorem probe_ioerror_reports_absent:
  "(map_of transport_params (urlparse_scheme w path) = Some p
      \<and> open_read w path p = Some e \<and> is_IOError e
    \<longrightarrow> file_exists w path tr = (Inr False, tr @ [ProviderCall p, OpenRead path]))
   \<and> (map_of transport_params (urlparse_scheme w path) = Some p
      \<and> open_read w path p = Some e \<and> \<not> is_IOError e
    \<longrightarrow> file_exists w path tr = (Inl e, tr @ [ProviderCall p, OpenRead path]))
   \<and> (map_of transport_params (urlparse_scheme w path) = Some p
      \<and> open_read w path p = None
    \<longrightarrow> file_exists w path tr = (Inr True, tr @ [ProviderCall p, OpenRead path]))
   \<and> (fst (file_exists w path tr) = Inr True
        \<longleftrightarrow> (\<exists>p'. map_of transport_params (urlparse_scheme w path) = Some p'
                  \<and> open_read w path p' = None))
   \<and> (map_of transport_params (urlparse_scheme w path) = Some p
      \<and> output_file_path self = path \<and> overwrite self \<noteq> Some True
      \<and> map_of (input_hooks (input_table self)) (conn_type_of w (conn_id (input_table self))) = Some h
      \<and> read_sql w (''SELECT * FROM '' @ get_table_name w (input_table self)) h = Inr df
      \<and> tr2 = tr @ map (\<lambda>kv. HookInit (snd kv)) (input_hooks (input_table self))
                  @ [ReadSql (''SELECT * FROM '' @ get_table_name w (input_table self)) h]
    \<longrightarrow> (open_read w path p = Some e \<and> is_IOError e
          \<longrightarrow> SaveFile_execute w self tr
                = agnostic_write_file w (output_file_format self) df path
                    (tr2 @ [ProviderCall p, OpenRead path])
              \<and> (\<exists>rest. snd (SaveFile_execute w self tr)
                    = tr2 @ [ProviderCall p, OpenRead path, ProviderCall p, OpenWrite path] @ rest)
              \<and> (open_write w path p = None
                    \<and> map_of serialiser (output_file_format self) = Some r
                    \<and> serialise_raises w r (serialiser_params_get (output_file_format self)) df = None
                  \<longrightarrow> SaveFile_execute w self tr
                        = (Inr (), tr2 @ [ProviderCall p, OpenRead path, ProviderCall p,
                                          OpenWrite path,
                                          Serialise r (serialiser_params_get (output_file_format self))
                                            df])))
        \<and> (open_read w path p = Some e \<and> \<not> is_IOError e
          \<longrightarrow> SaveFile_execute w self tr = (Inl e, tr2 @ [ProviderCall p, OpenRead path])))"
proof -
  have a: "map_of transport_params (urlparse_scheme w path) = Some p
      \<and> open_read w path p = Some e \<and> is_IOError e
    \<longrightarrow> file_exists w path tr = (Inr False, tr @ [ProviderCall p, OpenRead path])"
    by (simp add: file_exists_def)
  have b: "map_of transport_params (urlparse_scheme w path) = Some p
      \<and> open_read w path p = Some e \<and> \<not> is_IOError e
    \<longrightarrow> file_exists w path tr = (Inl e, tr @ [ProviderCall p, OpenRead path])"
    by (simp add: file_exists_def)
  have c: "map_of transport_params (urlparse_scheme w path) = Some p
      \<and> open_read w path p = None
    \<longrightarrow> file_exists w path tr = (Inr True, tr @ [ProviderCall p, OpenRead path])"
    by (simp add: file_exists_def)
  have d: "fst (file_exists w path tr) = Inr True
        \<longleftrightarrow> (\<exists>p'. map_of transport_params (urlparse_scheme w path) = Some p'
                  \<and> open_read w path p' = None)"
    by (auto simp: file_exists_def split: option.splits)
  have e: "map_of transport_params (urlparse_scheme w path) = Some p
      \<and> output_file_path self = path \<and> overwrite self \<noteq> Some True
      \<and> map_of (input_hooks (input_table self)) (conn_type_of w (conn_id (input_table self))) = Some h
      \<and> read_sql w (''SELECT * FROM '' @ get_table_name w (input_table self)) h = Inr df
      \<and> tr2 = tr @ map (\<lambda>kv. HookInit (snd kv)) (input_hooks (input_table self))
                  @ [ReadSql (''SELECT * FROM '' @ get_table_name w (input_table self)) h]
    \<longrightarrow> (open_read w path p = Some e \<and> is_IOError e
          \<longrightarrow> SaveFile_execute w self tr
                = agnostic_write_file w (output_file_format self) df path
                    (tr2 @ [ProviderCall p, OpenRead path])
              \<and> (\<exists>rest. snd (SaveFile_execute w self tr)
                    = tr2 @ [ProviderCall p, OpenRead path, ProviderCall p, OpenWrite path] @ rest)
              \<and> (open_write w path p = None
                    \<and> map_of serialiser (output_file_format self) = Some r
                    \<and> serialise_raises w r (serialiser_params_get (output_file_format self)) df = None
                  \<longrightarrow> SaveFile_execute w self tr
                        = (Inr (), tr2 @ [ProviderCall p, OpenRead path, ProviderCall p,
                                          OpenWrite path,
                                          Serialise r (serialiser_params_get (output_file_format self))
                                            df])))
        \<and> (open_read w path p = Some e \<and> \<not> is_IOError e
          \<longrightarrow> SaveFile_execute w self tr = (Inl e, tr2 @ [ProviderCall p, OpenRead path]))"
  proof (intro impI, elim conjE)
    assume s: "map_of transport_params (urlparse_scheme w path) = Some p"
      and pa: "output_file_path self = path" and ov: "overwrite self \<noteq> Some True"
      and hk: "map_of (input_hooks (input_table self)) (conn_type_of w (conn_id (input_table self))) = Some h"
      and rd: "read_sql w (''SELECT * FROM '' @ get_table_name w (input_table self)) h = Inr df"
      and t2: "tr2 = tr @ map (\<lambda>kv. HookInit (snd kv)) (input_hooks (input_table self))
                  @ [ReadSql (''SELECT * FROM '' @ get_table_name w (input_table self)) h]"
    note fe = file_exists_known_scheme [OF s, of tr2]
    note ex = SaveFile_execute_loaded [OF hk rd, of tr, folded t2]
    have io: "open_read w path p = Some e \<and> is_IOError e
          \<longrightarrow> SaveFile_execute w self tr
                = agnostic_write_file w (output_file_format self) df path
                    (tr2 @ [ProviderCall p, OpenRead path])"
      using ex ov pa fe by simp
    have io2: "open_read w path p = Some e \<and> is_IOError e
          \<longrightarrow> (\<exists>rest. snd (SaveFile_execute w self tr)
                    = tr2 @ [ProviderCall p, OpenRead path, ProviderCall p, OpenWrite path] @ rest)"
      using io agnostic_write_file_known_scheme
              [OF s, of "output_file_format self" df "tr2 @ [ProviderCall p, OpenRead path]"]
      by auto
    have io3: "open_read w path p = Some e \<and> is_IOError e
          \<longrightarrow> (open_write w path p = None
                    \<and> map_of serialiser (output_file_format self) = Some r
                    \<and> serialise_raises w r (serialiser_params_get (output_file_format self)) df = None
                  \<longrightarrow> SaveFile_execute w self tr
                        = (Inr (), tr2 @ [ProviderCall p, OpenRead path, ProviderCall p,
                                          OpenWrite path,
                                          Serialise r (serialiser_params_get (output_file_format self))
                                            df]))"
      using io agnostic_write_file_ok
              [OF s, of "output_file_format self" r df "tr2 @ [ProviderCall p, OpenRead path]"]
      by auto
    have other: "open_read w path p = Some e \<and> \<not> is_IOError e
          \<longrightarrow> SaveFile_execute w self tr = (Inl e, tr2 @ [ProviderCall p, OpenRead path])"
      using ex ov pa fe by simp
    from io io2 io3 other
    show "(open_read w path p = Some e \<and> is_IOError e
          \<longrightarrow> SaveFile_execute w self tr
                = agnostic_write_file w (output_file_format self) df path
                    (tr2 @ [ProviderCall p, OpenRead path])
              \<and> (\<exists>rest. snd (SaveFile_execute w self tr)
                    = tr2 @ [ProviderCall p, OpenRead path, ProviderCall p, OpenWrite path] @ rest)
              \<and> (open_write w path p = None
                    \<and> map_of serialiser (output_file_format self) = Some r
                    \<and> serialise_raises w r (serialiser_params_get (output_file_format self)) df = None
                  \<longrightarrow> SaveFile_execute w self tr
                        = (Inr (), tr2 @ [ProviderCall p, OpenRead path, ProviderCall p,
                                          OpenWrite path,
                                          Serialise r (serialiser_params_get (output_file_format self))
                                            df])))
        \<and> (open_read w path p = Some e \<and> \<not> is_IOError e
          \<longrightarrow> SaveFile_execute w self tr = (Inl e, tr2 @ [ProviderCall p, OpenRead path]))"
      by blast
  qed
  from a b c d e show ?thesis by blast
qed

theorem probe_ioerror_reports_absent_witness:
  "map_of transport_params (urlparse_scheme local_world ''/tmp/locked.csv'') = Some None_lambda
   \<and> open_read local_world ''/tmp/locked.csv'' None_lambda = Some (IOError ''PermissionError'')
   \<and> is_IOError (IOError ''PermissionError'')
   \<and> file_exists local_world ''/tmp/locked.csv'' []
       = (Inr False, [ProviderCall None_lambda, OpenRead ''/tmp/locked.csv''])
   \<and> SaveFile_execute local_world (job ''postgres_conn'' ''/tmp/locked.csv'' None ''csv'') []
       = (Inr (),
          [HookInit (PostgresHook ''postgres_conn'' ''pagila''),
           HookInit (TempSnowflakeHook ''postgres_conn'' ''pagila'' ''public'' []),
           HookInit (BigQueryHook False ''postgres_conn''),
           ReadSql ''SELECT * FROM orders'' (PostgresHook ''postgres_conn'' ''pagila''),
           ProviderCall None_lambda, OpenRead ''/tmp/locked.csv'',
           ProviderCall None_lambda, OpenWrite ''/tmp/locked.csv'',
           Serialise To_csv [(''index'', PyBool False)]
             [[''1'', ''a''], [''2'', ''b''], [''3'', ''c'']]])
   \<and> map_of transport_params (urlparse_scheme cloud_world ''s3://bucket/down.csv'') = Some S3fs_creds
   \<and> open_read cloud_world ''s3://bucket/down.csv'' S3fs_creds
       = Some (OtherError ''EndpointConnectionError'')
   \<and> \<not> is_IOError (OtherError ''EndpointConnectionError'')
   \<and> file_exists cloud_world ''s3://bucket/down.csv'' []
       = (Inl (OtherError ''EndpointConnectionError''),
          [ProviderCall S3fs_creds, OpenRead ''s3://bucket/down.csv''])
   \<and> map_of transport_params (urlparse_scheme local_world ''/tmp/old.csv'') = Some None_lambda
   \<and> open_read local_world ''/tmp/old.csv'' None_lambda = None
   \<and> file_exists local_world ''/tmp/old.csv'' []
       = (Inr True, [ProviderCall None_lambda, OpenRead ''/tmp/old.csv''])"
proof -
  let ?self = "job ''postgres_conn'' ''/tmp/locked.csv'' None ''csv''"
  let ?h = "PostgresHook ''postgres_conn'' ''pagila''"
  let ?df = "[[''1'', ''a''], [''2'', ''b''], [''3'', ''c'']]"
  let ?tr2 = "[HookInit (PostgresHook ''postgres_conn'' ''pagila''),
      HookInit (TempSnowflakeHook ''postgres_conn'' ''pagila'' ''public'' []),
      HookInit (BigQueryHook False ''postgres_conn''), ReadSql ''SELECT * FROM orders'' ?h]"
  have s: "map_of transport_params (urlparse_scheme local_world ''/tmp/locked.csv'') = Some None_lambda"
    by (simp add: local_world_def transport_params_def)
  have o: "open_read local_world ''/tmp/locked.csv'' None_lambda = Some (IOError ''PermissionError'')"
    by (simp add: local_world_def)
  have i: "is_IOError (IOError ''PermissionError'')" by simp
  have ow: "open_write local_world ''/tmp/locked.csv'' None_lambda = None"
    by (simp add: local_world_def)
  have sr: "map_of serialiser (output_file_format ?self) = Some To_csv"
    by (simp add: job_fields serialiser_def)
  have ps: "serialiser_params_get (output_file_format ?self) = [(''index'', PyBool False)]"
    by (simp add: job_fields serialiser_params_get_def serialiser_params_def)
  have rr: "serialise_raises local_world To_csv
              (serialiser_params_get (output_file_format ?self)) ?df = None"
    by (simp add: local_world_def)
  have t2: "?tr2 = [] @ map (\<lambda>kv. HookInit (snd kv)) (input_hooks (input_table ?self))
       @ [ReadSql (''SELECT * FROM '' @ get_table_name local_world (input_table ?self)) ?h]"
    by (simp add: local_hooks_trace local_table_name)
  have f: "output_file_path ?self = ''/tmp/locked.csv''" "overwrite ?self \<noteq> Some True"
    by (simp_all add: job_fields)
  note T = probe_ioerror_reports_absent
             [of local_world "''/tmp/locked.csv''" None_lambda "IOError ''PermissionError''" "[]"
                 ?self ?h ?df ?tr2 To_csv]
  from T s o i have p1: "file_exists local_world ''/tmp/locked.csv'' []
       = (Inr False, [ProviderCall None_lambda, OpenRead ''/tmp/locked.csv''])"
    by simp
  from T s o i ow sr rr f t2 local_hook [of "''/tmp/locked.csv''" None "''csv''"]
    local_read [of "''postgres_conn''" "''/tmp/locked.csv''" None "''csv''" ?h]
  have "SaveFile_execute local_world ?self []
       = (Inr (), ?tr2 @ [ProviderCall None_lambda, OpenRead ''/tmp/locked.csv'', ProviderCall None_lambda,
                          OpenWrite ''/tmp/locked.csv'',
                          Serialise To_csv (serialiser_params_get (output_file_format ?self)) ?df])"
    by blast
  then have p2: "SaveFile_execute local_world ?self []
       = (Inr (),
          [HookInit (PostgresHook ''postgres_conn'' ''pagila''),
           HookInit (TempSnowflakeHook ''postgres_conn'' ''pagila'' ''public'' []),
           HookInit (BigQueryHook False ''postgres_conn''),
           ReadSql ''SELECT * FROM orders'' (PostgresHook ''postgres_conn'' ''pagila''),
           ProviderCall None_lambda, OpenRead ''/tmp/locked.csv'',
           ProviderCall None_lambda, OpenWrite ''/tmp/locked.csv'',
           Serialise To_csv [(''index'', PyBool False)] ?df])"
    by (simp add: ps)
  have s3: "map_of transport_params (urlparse_scheme cloud_world ''s3://bucket/down.csv'') = Some S3fs_creds"
    by (simp add: cloud_world_def transport_params_def)
  have o3: "open_read cloud_world ''s3://bucket/down.csv'' S3fs_creds
       = Some (OtherError ''EndpointConnectionError'')"
    by (simp add: cloud_world_def)
  have n3: "\<not> is_IOError (OtherError ''EndpointConnectionError'')" by simp
  from probe_ioerror_reports_absent
         [of cloud_world "''s3://bucket/down.csv''" S3fs_creds "OtherError ''EndpointConnectionError''" "[]"]
    s3 o3 n3
  have p3: "file_exists cloud_world ''s3://bucket/down.csv'' []
       = (Inl (OtherError ''EndpointConnectionError''),
          [ProviderCall S3fs_creds, OpenRead ''s3://bucket/down.csv''])"
    by simp
  have s4: "map_of transport_params (urlparse_scheme local_world ''/tmp/old.csv'') = Some None_lambda"
    by (simp add: local_world_def transport_params_def)
  have o4: "open_read local_world ''/tmp/old.csv'' None_lambda = None"
    by (simp add: local_world_def)
  from probe_ioerror_reports_absent [of local_world "''/tmp/old.csv''" None_lambda _ "[]"] s4 o4
  have p4: "file_exists local_world ''/tmp/old.csv'' []
       = (Inr True, [ProviderCall None_lambda, OpenRead ''/tmp/old.csv''])"
    by simp
  from s o i p1 p2 s3 o3 n3 p3 s4 o4 p4 show ?thesis by blast
qed

text \<open>
  A true \<open>overwrite\<close> flag does not make every invocation write: with a connection type
  for which no hook exists the execution ends with the attribute error while the table is
  being loaded, and the destination is never opened.
\<close>

theorem export_overwrite_without_table:
  "overwrite (job ''mysql_conn'' ''/tmp/new.csv'' (Some True) ''csv'') = Some True
   \<and> SaveFile_execute local_world (job ''mysql_conn'' ''/tmp/new.csv'' (Some True) ''csv'') []
       = (Inl (AttributeError ''get_sqlalchemy_engine''),
          [HookInit (PostgresHook ''mysql_conn'' ''pagila''),
           HookInit (TempSnowflakeHook ''mysql_conn'' ''pagila'' ''public'' []),
           HookInit (BigQueryHook False ''mysql_conn'')])
   \<and> filter is_open_write
        (snd (SaveFile_execute local_world (job ''mysql_conn'' ''/tmp/new.csv'' (Some True) ''csv'') []))
       = []"
  by (simp add: SaveFile_execute_def Let_def job_def named_def input_hooks_def local_world_def)

text \<open>
  Claim C4, as amended. For every export invocation whose table was loaded (a hook exists
  for the connection type and \<open>read_sql\<close> returned): if \<open>overwrite\<close> is true, the write
  step runs and the destination is never opened for read; if \<open>overwrite\<close> is not true
  and the existence check reports the destination as present, the operation raises the
  already-exists error right after the probe, without opening the destination for write
  and without calling a serialisation routine; if the existence check reports absence, the
  write step runs. Where the write step runs with a known scheme, the destination is
  opened for write, and when that open succeeds, the format is known and the routine
  returns, the loaded table is serialised to it and the invocation succeeds.
\<close>

theorem export_overwrite_policy:
  assumes hk: "map_of (input_hooks (input_table self)) (conn_type_of w (conn_id (input_table self))) = Some h"
    and rd: "read_sql w (''SELECT * FROM '' @ get_table_name w (input_table self)) h = Inr df"
    and tr2: "tr2 = tr @ map (\<lambda>kv. HookInit (snd kv)) (input_hooks (input_table self))
                       @ [ReadSql (''SELECT * FROM '' @ get_table_name w (input_table self)) h]"
  shows "(overwrite self = Some True
          \<longrightarrow> SaveFile_execute w self tr
                = agnostic_write_file w (output_file_format self) df (output_file_path self) tr2
              \<and> filter is_open_read (snd (SaveFile_execute w self tr)) = filter is_open_read tr
              \<and> (map_of transport_params (urlparse_scheme w (output_file_path self)) = Some p
                  \<longrightarrow> (\<exists>rest. snd (SaveFile_execute w self tr)
                         = tr2 @ [ProviderCall p, OpenWrite (output_file_path self)] @ rest))
              \<and> (map_of transport_params (urlparse_scheme w (output_file_path self)) = Some p
                    \<and> open_write w (output_file_path self) p = None
                    \<and> map_of serialiser (output_file_format self) = Some r
                    \<and> serialise_raises w r (serialiser_params_get (output_file_format self)) df = None
                  \<longrightarrow> SaveFile_execute w self tr
                        = (Inr (), tr2 @ [ProviderCall p, OpenWrite (output_file_path self),
                                          Serialise r (serialiser_params_get (output_file_format self))
                                            df])))
       \<and> (overwrite self \<noteq> Some True
            \<and> fst (file_exists w (output_file_path self) tr2) = Inr True
          \<longrightarrow> (\<exists>p'. SaveFile_execute w self tr
                       = (Inl FileExistsError,
                          tr2 @ [ProviderCall p', OpenRead (output_file_path self)]))
              \<and> filter is_open_write (snd (SaveFile_execute w self tr)) = filter is_open_write tr
              \<and> filter is_serialise (snd (SaveFile_execute w self tr)) = filter is_serialise tr)
       \<and> (overwrite self \<noteq> Some True
            \<and> fst (file_exists w (output_file_path self) tr2) = Inr False
          \<longrightarrow> (\<exists>p'. map_of transport_params (urlparse_scheme w (output_file_path self)) = Some p'
                  \<and> SaveFile_execute w self tr
                      = agnostic_write_file w (output_file_format self) df (output_file_path self)
                          (tr2 @ [ProviderCall p', OpenRead (output_file_path self)])
                  \<and> (\<exists>rest. snd (SaveFile_execute w self tr)
                         = tr2 @ [ProviderCall p', OpenRead (output_file_path self),
                                  ProviderCall p', OpenWrite (output_file_path self)] @ rest)
                  \<and> (open_write w (output_file_path self) p' = None
                        \<and> map_of serialiser (output_file_format self) = Some r
                        \<and> serialise_raises w r (serialiser_params_get (output_file_format self)) df
                            = None
                      \<longrightarrow> SaveFile_execute w self tr
                            = (Inr (), tr2 @ [ProviderCall p', OpenRead (output_file_path self),
                                              ProviderCall p', OpenWrite (output_file_path self),
                                              Serialise r
                                                (serialiser_params_get (output_file_format self))
                                                df]))))"
proof -
  let ?path = "output_file_path self"
  let ?fmt = "output_file_format self"
  note ex = SaveFile_execute_loaded [OF hk rd, of tr, folded tr2]
  have a: "overwrite self = Some True
          \<longrightarrow> SaveFile_execute w self tr = agnostic_write_file w ?fmt df ?path tr2
              \<and> filter is_open_read (snd (SaveFile_execute w self tr)) = filter is_open_read tr
              \<and> (map_of transport_params (urlparse_scheme w ?path) = Some p
                  \<longrightarrow> (\<exists>rest. snd (SaveFile_execute w self tr)
                         = tr2 @ [ProviderCall p, OpenWrite ?path] @ rest))
              \<and> (map_of transport_params (urlparse_scheme w ?path) = Some p
                    \<and> open_write w ?path p = None
                    \<and> map_of serialiser ?fmt = Some r
                    \<and> serialise_raises w r (serialiser_params_get ?fmt) df = None
                  \<longrightarrow> SaveFile_execute w self tr
                        = (Inr (), tr2 @ [ProviderCall p, OpenWrite ?path,
                                          Serialise r (serialiser_params_get ?fmt) df]))"
  proof
    assume ov: "overwrite self = Some True"
    with ex have eq: "SaveFile_execute w self tr = agnostic_write_file w ?fmt df ?path tr2"
      by simp
    have rd0: "filter is_open_read (snd (SaveFile_execute w self tr)) = filter is_open_read tr"
      unfolding eq by (simp add: agnostic_write_file_open_read) (simp add: tr2 hooks_no_write)
    have op: "map_of transport_params (urlparse_scheme w ?path) = Some p
                  \<longrightarrow> (\<exists>rest. snd (SaveFile_execute w self tr)
                         = tr2 @ [ProviderCall p, OpenWrite ?path] @ rest)"
      unfolding eq using agnostic_write_file_known_scheme [of w ?path p ?fmt df tr2] by blast
    have ok: "map_of transport_params (urlparse_scheme w ?path) = Some p
                    \<and> open_write w ?path p = None
                    \<and> map_of serialiser ?fmt = Some r
                    \<and> serialise_raises w r (serialiser_params_get ?fmt) df = None
                  \<longrightarrow> SaveFile_execute w self tr
                        = (Inr (), tr2 @ [ProviderCall p, OpenWrite ?path,
                                          Serialise r (serialiser_params_get ?fmt) df])"
      unfolding eq using agnostic_write_file_ok [of w ?path p ?fmt r df tr2] by blast
    from eq rd0 op ok
    show "SaveFile_execute w self tr = agnostic_write_file w ?fmt df ?path tr2
              \<and> filter is_open_read (snd (SaveFile_execute w self tr)) = filter is_open_read tr
              \<and> (map_of transport_params (urlparse_scheme w ?path) = Some p
                  \<longrightarrow> (\<exists>rest. snd (SaveFile_execute w self tr)
                         = tr2 @ [ProviderCall p, OpenWrite ?path] @ rest))
              \<and> (map_of transport_params (urlparse_scheme w ?path) = Some p
                    \<and> open_write w ?path p = None
                    \<and> map_of serialiser ?fmt = Some r
                    \<and> serialise_raises w r (serialiser_params_get ?fmt) df = None
                  \<longrightarrow> SaveFile_execute w self tr
                        = (Inr (), tr2 @ [ProviderCall p, OpenWrite ?path,
                                          Serialise r (serialiser_params_get ?fmt) df]))"
      by blast
  qed
  have known: "\<exists>p'. map_of transport_params (urlparse_scheme w ?path) = Some p'
                 \<and> snd (file_exists w ?path tr2) = tr2 @ [ProviderCall p', OpenRead ?path]"
    if "fst (file_exists w ?path tr2) = Inr b" for b
    using that by (auto simp: file_exists_def split: option.splits if_splits)
  have b: "overwrite self \<noteq> Some True \<and> fst (file_exists w ?path tr2) = Inr True
          \<longrightarrow> (\<exists>p'. SaveFile_execute w self tr
                       = (Inl FileExistsError, tr2 @ [ProviderCall p', OpenRead ?path]))
              \<and> filter is_open_write (snd (SaveFile_execute w self tr)) = filter is_open_write tr
              \<and> filter is_serialise (snd (SaveFile_execute w self tr)) = filter is_serialise tr"
  proof (intro impI, elim conjE)
    assume ov: "overwrite self \<noteq> Some True" and pr: "fst (file_exists w ?path tr2) = Inr True"
    from known [OF pr] obtain p' where
      p': "snd (file_exists w ?path tr2) = tr2 @ [ProviderCall p', OpenRead ?path]" by blast
    from pr p' have fe: "file_exists w ?path tr2 = (Inr True, tr2 @ [ProviderCall p', OpenRead ?path])"
      by (metis prod.collapse)
    from ex ov fe have eq: "SaveFile_execute w self tr
                       = (Inl FileExistsError, tr2 @ [ProviderCall p', OpenRead ?path])"
      by simp
    have "filter is_open_write (snd (SaveFile_execute w self tr)) = filter is_open_write tr"
      "filter is_serialise (snd (SaveFile_execute w self tr)) = filter is_serialise tr"
      unfolding eq by (simp_all add: tr2 hooks_no_write)
    with eq show "(\<exists>p'. SaveFile_execute w self tr
                       = (Inl FileExistsError, tr2 @ [ProviderCall p', OpenRead ?path]))
              \<and> filter is_open_write (snd (SaveFile_execute w self tr)) = filter is_open_write tr
              \<and> filter is_serialise (snd (SaveFile_execute w self tr)) = filter is_serialise tr"
      by blast
  qed
  have c: "overwrite self \<noteq> Some True \<and> fst (file_exists w ?path tr2) = Inr False
          \<longrightarrow> (\<exists>p'. map_of transport_params (urlparse_scheme w ?path) = Some p'
                  \<and> SaveFile_execute w self tr
                      = agnostic_write_file w ?fmt df ?path (tr2 @ [ProviderCall p', OpenRead ?path])
                  \<and> (\<exists>rest. snd (SaveFile_execute w self tr)
                         = tr2 @ [ProviderCall p', OpenRead ?path,
                                  ProviderCall p', OpenWrite ?path] @ rest)
                  \<and> (open_write w ?path p' = None
                        \<and> map_of serialiser ?fmt = Some r
                        \<and> serialise_raises w r (serialiser_params_get ?fmt) df = None
                      \<longrightarrow> SaveFile_execute w self tr
                            = (Inr (), tr2 @ [ProviderCall p', OpenRead ?path,
                                              ProviderCall p', OpenWrite ?path,
                                              Serialise r (serialiser_params_get ?fmt) df])))"
  proof (intro impI, elim conjE)
    assume ov: "overwrite self \<noteq> Some True" and pr: "fst (file_exists w ?path tr2) = Inr False"
    from known [OF pr] obtain p' where
      s: "map_of transport_params (urlparse_scheme w ?path) = Some p'"
      and p': "snd (file_exists w ?path tr2) = tr2 @ [ProviderCall p', OpenRead ?path]" by blast
    let ?tr3 = "tr2 @ [ProviderCall p', OpenRead ?path]"
    from pr p' have fe: "file_exists w ?path tr2 = (Inr False, ?tr3)"
      by (metis prod.collapse)
    from ex ov fe have eq: "SaveFile_execute w self tr = agnostic_write_file w ?fmt df ?path ?tr3"
      by simp
    have op: "\<exists>rest. snd (SaveFile_execute w self tr)
                         = tr2 @ [ProviderCall p', OpenRead ?path,
                                  ProviderCall p', OpenWrite ?path] @ rest"
      unfolding eq using agnostic_write_file_known_scheme [OF s, of ?fmt df ?tr3] by auto
    have ok: "open_write w ?path p' = None
                        \<and> map_of serialiser ?fmt = Some r
                        \<and> serialise_raises w r (serialiser_params_get ?fmt) df = None
                      \<longrightarrow> SaveFile_execute w self tr
                            = (Inr (), tr2 @ [ProviderCall p', OpenRead ?path,
                                              ProviderCall p', OpenWrite ?path,
                                              Serialise r (serialiser_params_get ?fmt) df])"
      unfolding eq using agnostic_write_file_ok [OF s, of ?fmt r df ?tr3] by auto
    from s eq op ok
    show "\<exists>p'. map_of transport_params (urlparse_scheme w ?path) = Some p'
                  \<and> SaveFile_execute w self tr
                      = agnostic_write_file w ?fmt df ?path (tr2 @ [ProviderCall p', OpenRead ?path])
                  \<and> (\<exists>rest. snd (SaveFile_execute w self tr)
                         = tr2 @ [ProviderCall p', OpenRead ?path,
                                  ProviderCall p', OpenWrite ?path] @ rest)
                  \<and> (open_write w ?path p' = None
                        \<and> map_of serialiser ?fmt = Some r
                        \<and> serialise_raises w r (serialiser_params_get ?fmt) df = None
                      \<longrightarrow> SaveFile_execute w self tr
                            = (Inr (), tr2 @ [ProviderCall p', OpenRead ?path,
                                              ProviderCall p', OpenWrite ?path,
                                              Serialise r (serialiser_params_get ?fmt) df]))"
      by blast
  qed
  from a b c show ?thesis by blast
qed

theorem export_overwrite_policy_witness:
  "SaveFile_execute local_world (job ''postgres_conn'' ''/tmp/old.csv'' (Some True) ''csv'') []
     = (Inr (),
        [HookInit (PostgresHook ''postgres_conn'' ''pagila''),
         HookInit (TempSnowflakeHook ''postgres_conn'' ''pagila'' ''public'' []),
         HookInit (BigQueryHook False ''postgres_conn''),
         ReadSql ''SELECT * FROM orders'' (PostgresHook ''postgres_conn'' ''pagila''),
         ProviderCall None_lambda, OpenWrite ''/tmp/old.csv'',
         Serialise To_csv [(''index'', PyBool False)] [[''1'', ''a''], [''2'', ''b''], [''3'', ''c'']]])
   \<and> fst (file_exists local_world ''/tmp/old.csv''
             [HookInit (PostgresHook ''postgres_conn'' ''pagila''),
              HookInit (TempSnowflakeHook ''postgres_conn'' ''pagila'' ''public'' []),
              HookInit (BigQueryHook False ''postgres_conn''),
              ReadSql ''SELECT * FROM orders'' (PostgresHook ''postgres_conn'' ''pagila'')])
       = Inr True
   \<and> fst (SaveFile_execute local_world (job ''postgres_conn'' ''/tmp/old.csv'' (Some False) ''csv'') [])
       = Inl FileExistsError
   \<and> filter is_open_write
       (snd (SaveFile_execute local_world (job ''postgres_conn'' ''/tmp/old.csv'' (Some False) ''csv'') []))
       = []
   \<and> filter is_serialise
       (snd (SaveFile_execute local_world (job ''postgres_conn'' ''/tmp/old.csv'' (Some False) ''csv'') []))
       = []
   \<and> fst (file_exists local_world ''/tmp/new.csv''
             [HookInit (PostgresHook ''postgres_conn'' ''pagila''),
              HookInit (TempSnowflakeHook ''postgres_conn'' ''pagila'' ''public'' []),
              HookInit (BigQueryHook False ''postgres_conn''),
              ReadSql ''SELECT * FROM orders'' (PostgresHook ''postgres_conn'' ''pagila'')])
       = Inr False
   \<and> SaveFile_execute local_world (job ''postgres_conn'' ''/tmp/new.csv'' (Some False) ''csv'') []
     = (Inr (),
        [HookInit (PostgresHook ''postgres_conn'' ''pagila''),
         HookInit (TempSnowflakeHook ''postgres_conn'' ''pagila'' ''public'' []),
         HookInit (BigQueryHook False ''postgres_conn''),
         ReadSql ''SELECT * FROM orders'' (PostgresHook ''postgres_conn'' ''pagila''),
         ProviderCall None_lambda, OpenRead ''/tmp/new.csv'',
         ProviderCall None_lambda, OpenWrite ''/tmp/new.csv'',
         Serialise To_csv [(''index'', PyBool False)] [[''1'', ''a''], [''2'', ''b''], [''3'', ''c'']]])"
proof -
  let ?h = "PostgresHook ''postgres_conn'' ''pagila''"
  let ?df = "[[''1'', ''a''], [''2'', ''b''], [''3'', ''c'']]"
  let ?tr2 = "[HookInit (PostgresHook ''postgres_conn'' ''pagila''),
      HookInit (TempSnowflakeHook ''postgres_conn'' ''pagila'' ''public'' []),
      HookInit (BigQueryHook False ''postgres_conn''), ReadSql ''SELECT * FROM orders'' ?h]"
  let ?A = "job ''postgres_conn'' ''/tmp/old.csv'' (Some True) ''csv''"
  let ?B = "job ''postgres_conn'' ''/tmp/old.csv'' (Some False) ''csv''"
  let ?C = "job ''postgres_conn'' ''/tmp/new.csv'' (Some False) ''csv''"
  have tr2: "?tr2 = [] @ map (\<lambda>kv. HookInit (snd kv)) (input_hooks (input_table (job ''postgres_conn'' path ov fmt)))
       @ [ReadSql (''SELECT * FROM '' @ get_table_name local_world (input_table (job ''postgres_conn'' path ov fmt))) ?h]"
    for path ov fmt
    by (simp add: local_hooks_trace local_table_name)
  have old: "fst (file_exists local_world ''/tmp/old.csv'' ?tr2) = Inr True"
    by (simp add: file_exists_def local_world_def transport_params_def)
  have new: "fst (file_exists local_world ''/tmp/new.csv'' ?tr2) = Inr False"
    by (simp add: file_exists_def local_world_def transport_params_def)
  have ps: "serialiser_params_get ''csv'' = [(''index'', PyBool False)]"
    by (simp add: serialiser_params_get_def serialiser_params_def)
  have ovA: "overwrite ?A = Some True"
    and sA: "map_of transport_params (urlparse_scheme local_world (output_file_path ?A)) = Some None_lambda"
    and wA: "open_write local_world (output_file_path ?A) None_lambda = None"
    and rA: "map_of serialiser (output_file_format ?A) = Some To_csv"
    and eA: "serialise_raises local_world To_csv (serialiser_params_get (output_file_format ?A)) ?df = None"
    by (simp_all add: job_fields local_world_def transport_params_def serialiser_def)
  from export_overwrite_policy [OF local_hook local_read tr2,
         of "''/tmp/old.csv''" "Some True" "''csv''" None_lambda To_csv] ovA sA wA rA eA
  have "SaveFile_execute local_world ?A []
     = (Inr (), ?tr2 @ [ProviderCall None_lambda, OpenWrite (output_file_path ?A),
                        Serialise To_csv (serialiser_params_get (output_file_format ?A)) ?df])"
    by blast
  then have a: "SaveFile_execute local_world ?A []
     = (Inr (), ?tr2 @ [ProviderCall None_lambda, OpenWrite ''/tmp/old.csv'',
                        Serialise To_csv [(''index'', PyBool False)] ?df])"
    by (simp add: job_fields ps)
  have ovB: "overwrite ?B \<noteq> Some True"
    and oldB: "fst (file_exists local_world (output_file_path ?B) ?tr2) = Inr True"
    using old by (simp_all add: job_fields)
  from export_overwrite_policy [OF local_hook local_read tr2,
         of "''/tmp/old.csv''" "Some False" "''csv''"] ovB oldB
  have "(\<exists>p'. SaveFile_execute local_world ?B []
                = (Inl FileExistsError, ?tr2 @ [ProviderCall p', OpenRead (output_file_path ?B)]))
      \<and> filter is_open_write (snd (SaveFile_execute local_world ?B [])) = filter is_open_write []
      \<and> filter is_serialise (snd (SaveFile_execute local_world ?B [])) = filter is_serialise []"
    by blast
  then have b: "fst (SaveFile_execute local_world ?B []) = Inl FileExistsError
      \<and> filter is_open_write (snd (SaveFile_execute local_world ?B [])) = []
      \<and> filter is_serialise (snd (SaveFile_execute local_world ?B [])) = []"
    by auto
  have ovC: "overwrite ?C \<noteq> Some True"
    and newC: "fst (file_exists local_world (output_file_path ?C) ?tr2) = Inr False"
    and sC: "map_of transport_params (urlparse_scheme local_world (output_file_path ?C)) = Some None_lambda"
    and wC: "open_write local_world (output_file_path ?C) None_lambda = None"
    and rC: "map_of serialiser (output_file_format ?C) = Some To_csv"
    and eC: "serialise_raises local_world To_csv (serialiser_params_get (output_file_format ?C)) ?df = None"
    using new by (simp_all add: job_fields local_world_def transport_params_def serialiser_def)
  from export_overwrite_policy [OF local_hook local_read tr2,
         of "''/tmp/new.csv''" "Some False" "''csv''" _ To_csv] ovC newC
  obtain p' where p': "map_of transport_params (urlparse_scheme local_world (output_file_path ?C)) = Some p'"
    and run: "open_write local_world (output_file_path ?C) p' = None
                \<and> map_of serialiser (output_file_format ?C) = Some To_csv
                \<and> serialise_raises local_world To_csv (serialiser_params_get (output_file_format ?C)) ?df
                    = None
              \<longrightarrow> SaveFile_execute local_world ?C []
                    = (Inr (), ?tr2 @ [ProviderCall p', OpenRead (output_file_path ?C),
                                       ProviderCall p', OpenWrite (output_file_path ?C),
                                       Serialise To_csv (serialiser_params_get (output_file_format ?C))
                                         ?df])"
    by blast
  from p' sC have "p' = None_lambda" by simp
  with run wC rC eC have "SaveFile_execute local_world ?C []
                    = (Inr (), ?tr2 @ [ProviderCall None_lambda, OpenRead (output_file_path ?C),
                                       ProviderCall None_lambda, OpenWrite (output_file_path ?C),
                                       Serialise To_csv (serialiser_params_get (output_file_format ?C))
                                         ?df])"
    by blast
  then have c: "SaveFile_execute local_world ?C []
     = (Inr (), ?tr2 @ [ProviderCall None_lambda, OpenRead ''/tmp/new.csv'',
                        ProviderCall None_lambda, OpenWrite ''/tmp/new.csv'',
                        Serialise To_csv [(''index'', PyBool False)] ?df])"
    by (simp add: job_fields ps)
  from a b c old new show ?thesis by simp
qed

lemma destination_content_last:
  "destination_content (tr @ [ProviderCall p, OpenWrite path, Serialise r opts fr])
     = Some (pandas_output r opts fr)"
  by (simp add: destination_content_def)

text \<open>
  Claim C7. Each format selector is bound to one routine with fixed options: once the
  destination has opened and the routine returns, \<open>csv\<close> calls \<open>to_csv\<close> with
  \<open>index=False\<close>, which writes the columns and rows with no row-index column; \<open>json\<close>
  calls \<open>to_json\<close> with \<open>orient="records"\<close>, which writes one array of records;
  \<open>ndjson\<close> calls \<open>to_json\<close> with \<open>orient="records"\<close> and \<open>lines=True\<close>, which writes
  one JSON object for each row, separated by newlines, with no enclosing array, each
  object holding the row's column fields and no index field (so a three-row table gives
  exactly three objects); \<open>parquet\<close> calls \<open>to_parquet\<close> with no option.
\<close>

theorem serialiser_dispatch:
  assumes sch: "map_of transport_params (urlparse_scheme w path) = Some p"
    and op: "open_write w path p = None"
    and ret: "\<And>r opts. serialise_raises w r opts fr = None"
  shows "agnostic_write_file w ''csv'' fr path tr
           = (Inr (), tr @ [ProviderCall p, OpenWrite path,
                            Serialise To_csv [(''index'', PyBool False)] fr])
       \<and> destination_content (snd (agnostic_write_file w ''csv'' fr path tr))
           = Some (CsvText (frame_columns fr) (frame_rows fr))
       \<and> agnostic_write_file w ''json'' fr path tr
           = (Inr (), tr @ [ProviderCall p, OpenWrite path,
                            Serialise To_json [(''orient'', PyStr ''records'')] fr])
       \<and> destination_content (snd (agnostic_write_file w ''json'' fr path tr))
           = Some (JsonArray (frame_records fr))
       \<and> agnostic_write_file w ''ndjson'' fr path tr
           = (Inr (), tr @ [ProviderCall p, OpenWrite path,
                            Serialise To_json [(''orient'', PyStr ''records''), (''lines'', PyBool True)] fr])
       \<and> destination_content (snd (agnostic_write_file w ''ndjson'' fr path tr))
           = Some (JsonLines (frame_records fr))
       \<and> agnostic_write_file w ''parquet'' fr path tr
           = (Inr (), tr @ [ProviderCall p, OpenWrite path, Serialise To_parquet [] fr])
       \<and> length (frame_records fr) = length (frame_rows fr)
       \<and> (length (frame_rows fr) = 3 \<longrightarrow> (\<exists>o1 o2 o3. frame_records fr = [o1, o2, o3]))
       \<and> ((\<forall>row \<in> set (frame_rows fr). length row = length (frame_columns fr))
          \<longrightarrow> (\<forall>obj \<in> set (frame_records fr). map fst obj = frame_columns fr))"
proof -
  have csv: "agnostic_write_file w ''csv'' fr path tr
           = (Inr (), tr @ [ProviderCall p, OpenWrite path,
                            Serialise To_csv [(''index'', PyBool False)] fr])"
    using sch op ret
    by (simp add: agnostic_write_file_def serialiser_def serialiser_params_get_def
          serialiser_params_def)
  have json: "agnostic_write_file w ''json'' fr path tr
           = (Inr (), tr @ [ProviderCall p, OpenWrite path,
                            Serialise To_json [(''orient'', PyStr ''records'')] fr])"
    using sch op ret
    by (simp add: agnostic_write_file_def serialiser_def serialiser_params_get_def
          serialiser_params_def)
  have ndjson: "agnostic_write_file w ''ndjson'' fr path tr
           = (Inr (), tr @ [ProviderCall p, OpenWrite path,
                            Serialise To_json [(''orient'', PyStr ''records''), (''lines'', PyBool True)] fr])"
    using sch op ret
    by (simp add: agnostic_write_file_def serialiser_def serialiser_params_get_def
          serialiser_params_def)
  have parquet: "agnostic_write_file w ''parquet'' fr path tr
           = (Inr (), tr @ [ProviderCall p, OpenWrite path, Serialise To_parquet [] fr])"
    using sch op ret
    by (simp add: agnostic_write_file_def serialiser_def serialiser_params_get_def
          serialiser_params_def)
  have c1: "destination_content (snd (agnostic_write_file w ''csv'' fr path tr))
           = Some (CsvText (frame_columns fr) (frame_rows fr))"
    unfolding csv by (simp add: destination_content_last to_csv_def)
  have c2: "destination_content (snd (agnostic_write_file w ''json'' fr path tr))
           = Some (JsonArray (frame_records fr))"
    unfolding json by (simp add: destination_content_last to_json_def)
  have c3: "destination_content (snd (agnostic_write_file w ''ndjson'' fr path tr))
           = Some (JsonLines (frame_records fr))"
    unfolding ndjson by (simp add: destination_content_last to_json_def)
  have len: "length (frame_records fr) = length (frame_rows fr)"
    by (simp add: frame_records_def)
  have three: "length (frame_rows fr) = 3 \<longrightarrow> (\<exists>o1 o2 o3. frame_records fr = [o1, o2, o3])"
  proof
    assume "length (frame_rows fr) = 3"
    with len have "length (frame_records fr) = Suc (Suc (Suc 0))" by simp
    then show "\<exists>o1 o2 o3. frame_records fr = [o1, o2, o3]"
      by (auto simp: length_Suc_conv)
  qed
  have keys: "(\<forall>row \<in> set (frame_rows fr). length row = length (frame_columns fr))
          \<longrightarrow> (\<forall>obj \<in> set (frame_records fr). map fst obj = frame_columns fr)"
    by (auto simp: frame_records_def)
  from csv c1 json c2 ndjson c3 parquet len three keys show ?thesis by blast
qed

theorem serialiser_dispatch_witness:
  "map_of transport_params (urlparse_scheme cloud_world ''s3://bucket/rows.ndjson'') = Some S3fs_creds
   \<and> open_write cloud_world ''s3://bucket/rows.ndjson'' S3fs_creds = None
   \<and> length (frame_rows orders_frame) = 3
   \<and> agnostic_write_file cloud_world ''ndjson'' orders_frame ''s3://bucket/rows.ndjson'' []
       = (Inr (), [ProviderCall S3fs_creds, OpenWrite ''s3://bucket/rows.ndjson'',
                   Serialise To_json [(''orient'', PyStr ''records''), (''lines'', PyBool True)]
                     orders_frame])
   \<and> destination_content
         (snd (agnostic_write_file cloud_world ''ndjson'' orders_frame ''s3://bucket/rows.ndjson'' []))
       = Some (JsonLines [[(''id'', IntCell 1), (''amount'', IntCell 10)],
                          [(''id'', IntCell 2), (''amount'', IntCell 25)],
                          [(''id'', IntCell 3), (''amount'', IntCell 7)]])
   \<and> destination_content
         (snd (agnostic_write_file cloud_world ''json'' orders_frame ''s3://bucket/rows.ndjson'' []))
       = Some (JsonArray [[(''id'', IntCell 1), (''amount'', IntCell 10)],
                          [(''id'', IntCell 2), (''amount'', IntCell 25)],
                          [(''id'', IntCell 3), (''amount'', IntCell 7)]])
   \<and> destination_content
         (snd (agnostic_write_file cloud_world ''csv'' orders_frame ''s3://bucket/rows.ndjson'' []))
       = Some (CsvText [''id'', ''amount'']
                 [[IntCell 1, IntCell 10], [IntCell 2, IntCell 25], [IntCell 3, IntCell 7]])"
proof -
  have s: "map_of transport_params (urlparse_scheme cloud_world ''s3://bucket/rows.ndjson'') = Some S3fs_creds"
    by (simp add: cloud_world_def transport_params_def)
  have o: "open_write cloud_world ''s3://bucket/rows.ndjson'' S3fs_creds = None"
    by (simp add: cloud_world_def)
  have r: "serialise_raises cloud_world r opts orders_frame = None" for r opts
    by (simp add: cloud_world_def)
  have l: "length (frame_rows orders_frame) = 3" by (simp add: orders_frame_def)
  have recs: "frame_records orders_frame
                = [[(''id'', IntCell 1), (''amount'', IntCell 10)],
                   [(''id'', IntCell 2), (''amount'', IntCell 25)],
                   [(''id'', IntCell 3), (''amount'', IntCell 7)]]"
    by (simp add: frame_records_def orders_frame_def)
  have cols: "frame_columns orders_frame = [''id'', ''amount'']"
    "frame_rows orders_frame = [[IntCell 1, IntCell 10], [IntCell 2, IntCell 25], [IntCell 3, IntCell 7]]"
    by (simp_all add: orders_frame_def)
  note T = serialiser_dispatch [OF s o r, of "[]"]
  from T have nd: "agnostic_write_file cloud_world ''ndjson'' orders_frame ''s3://bucket/rows.ndjson'' []
       = (Inr (), [] @ [ProviderCall S3fs_creds, OpenWrite ''s3://bucket/rows.ndjson'',
                   Serialise To_json [(''orient'', PyStr ''records''), (''lines'', PyBool True)]
                     orders_frame])"
    by blast
  from T have d1: "destination_content
         (snd (agnostic_write_file cloud_world ''ndjson'' orders_frame ''s3://bucket/rows.ndjson'' []))
       = Some (JsonLines (frame_records orders_frame))"
    by blast
  from T have d2: "destination_content
         (snd (agnostic_write_file cloud_world ''json'' orders_frame ''s3://bucket/rows.ndjson'' []))
       = Some (JsonArray (frame_records orders_frame))"
    by blast
  from T have d3: "destination_content
         (snd (agnostic_write_file cloud_world ''csv'' orders_frame ''s3://bucket/rows.ndjson'' []))
       = Some (CsvText (frame_columns orders_frame) (frame_rows orders_frame))"
    by blast
  from s o l nd [simplified] d1 [unfolded recs] d2 [unfolded recs] d3 [unfolded cols]
  show ?thesis by blast
qed

text \<open>
  Claim C9. For every destination path whose scheme is not \<open>s3\<close>, \<open>gs\<close> or empty, both
  the existence probe and the write fail with the key error on the scheme, and nothing
  has happened by then: no credential provider was called and no open was attempted.
\<close>

theorem unknown_scheme_key_error:
  assumes "urlparse_scheme w path \<notin> {''s3'', ''gs'', []}"
  shows "file_exists w path tr = (Inl (KeyError (urlparse_scheme w path)), tr)
       \<and> agnostic_write_file w fmt df path tr = (Inl (KeyError (urlparse_scheme w path)), tr)"
  using assms by (simp add: file_exists_def agnostic_write_file_def transport_params_def)

theorem unknown_scheme_key_error_witness:
  "urlparse_scheme local_world ''http://host/out.csv'' \<notin> {''s3'', ''gs'', []}
   \<and> file_exists local_world ''http://host/out.csv'' [] = (Inl (KeyError ''http''), [])
   \<and> agnostic_write_file local_world ''csv'' [[''1'']] ''http://host/out.csv'' []
       = (Inl (KeyError ''http''), [])"
proof -
  have s: "urlparse_scheme local_world ''http://host/out.csv'' = ''http''"
    by (simp add: local_world_def)
  then have h: "urlparse_scheme local_world ''http://host/out.csv'' \<notin> {''s3'', ''gs'', []}"
    by simp
  from unknown_scheme_key_error [OF h, of "[]" "''csv''" "[[''1'']]"] h s show ?thesis by simp
qed

text \<open>
  Claim C10. For every export whose connection type is not \<open>postgres\<close>, \<open>snowflake\<close> or
  \<open>bigquery\<close>, the hook lookup yields \<open>None\<close> and the execution fails with the
  attribute error of \<open>None.get_sqlalchemy_engine\<close>, after the three hook constructors
  and nothing else. And on every invocation, whatever the connection type, the three
  hooks are constructed first.
\<close>

theorem unknown_conn_type_attribute_error:
  "(conn_type_of w (conn_id (input_table self)) \<notin> {''postgres'', ''snowflake'', ''bigquery''}
     \<longrightarrow> SaveFile_execute w self tr
          = (Inl (AttributeError ''get_sqlalchemy_engine''),
             tr @ [HookInit (PostgresHook (conn_id (input_table self)) (database (input_table self))),
                   HookInit (TempSnowflakeHook (conn_id (input_table self)) (database (input_table self))
                               (schema (input_table self)) (warehouse (input_table self))),
                   HookInit (BigQueryHook False (conn_id (input_table self)))]))
   \<and> (\<exists>rest. snd (SaveFile_execute w self tr)
          = tr @ [HookInit (PostgresHook (conn_id (input_table self)) (database (input_table self))),
                   HookInit (TempSnowflakeHook (conn_id (input_table self)) (database (input_table self))
                               (schema (input_table self)) (warehouse (input_table self))),
                   HookInit (BigQueryHook False (conn_id (input_table self)))] @ rest)"
proof -
  let ?hooks = "[HookInit (PostgresHook (conn_id (input_table self)) (database (input_table self))),
                 HookInit (TempSnowflakeHook (conn_id (input_table self)) (database (input_table self))
                             (schema (input_table self)) (warehouse (input_table self))),
                 HookInit (BigQueryHook False (conn_id (input_table self)))]"
  let ?q = "''SELECT * FROM '' @ get_table_name w (input_table self)"
  have hooks: "map (\<lambda>kv. HookInit (snd kv)) (input_hooks (input_table self)) = ?hooks"
    by (simp add: input_hooks_def)
  have unsupported: "conn_type_of w (conn_id (input_table self))
                       \<notin> {''postgres'', ''snowflake'', ''bigquery''}
     \<longrightarrow> map_of (input_hooks (input_table self)) (conn_type_of w (conn_id (input_table self)))
          = None"
    by (simp add: input_hooks_def)
  have none: "map_of (input_hooks (input_table self)) (conn_type_of w (conn_id (input_table self)))
                = None
     \<Longrightarrow> SaveFile_execute w self tr = (Inl (AttributeError ''get_sqlalchemy_engine''), tr @ ?hooks)"
    by (simp add: SaveFile_execute_def Let_def hooks)
  have prefix: "\<exists>rest. snd (SaveFile_execute w self tr) = tr @ ?hooks @ rest"
  proof (cases "map_of (input_hooks (input_table self))
                  (conn_type_of w (conn_id (input_table self)))")
    case None
    from none [OF this] show ?thesis by simp
  next
    case (Some h)
    show ?thesis
    proof (cases "read_sql w ?q h")
      case (Inl e)
      with Some show ?thesis by (simp add: SaveFile_execute_def Let_def hooks)
    next
      case (Inr df)
      note ex = SaveFile_execute_loaded [OF Some Inr, of tr, unfolded hooks]
      obtain r0 t0 where fe: "file_exists w (output_file_path self) (tr @ ?hooks @ [ReadSql ?q h])
                                = (r0, t0)"
        by (cases "file_exists w (output_file_path self) (tr @ ?hooks @ [ReadSql ?q h])")
      from file_exists_extends [of w "output_file_path self" "tr @ ?hooks @ [ReadSql ?q h]"] fe
      obtain rest0 where t0: "t0 = tr @ ?hooks @ [ReadSql ?q h] @ rest0" by auto
      from agnostic_write_file_extends
             [of w "output_file_format self" df "output_file_path self" "tr @ ?hooks @ [ReadSql ?q h]"]
      obtain rest1 where w1: "snd (agnostic_write_file w (output_file_format self) df
                                     (output_file_path self) (tr @ ?hooks @ [ReadSql ?q h]))
                               = tr @ ?hooks @ [ReadSql ?q h] @ rest1" by auto
      from agnostic_write_file_extends
             [of w "output_file_format self" df "output_file_path self" t0]
      obtain rest2 where w2: "snd (agnostic_write_file w (output_file_format self) df
                                     (output_file_path self) t0)
                               = t0 @ rest2" by auto
      show ?thesis
      proof (cases "overwrite self = Some True")
        case True
        with ex w1 show ?thesis by simp
      next
        case False
        show ?thesis
        proof (cases r0)
          case (Inl e)
          with ex False fe t0 show ?thesis by simp
        next
          case (Inr b)
          with ex False fe t0 w2 show ?thesis by (cases b) simp_all
        qed
      qed
    qed
  qed
  from unsupported none prefix show ?thesis by blast
qed

theorem unknown_conn_type_attribute_error_witness:
  "conn_type_of local_world (conn_id (input_table (job ''mysql_conn'' ''/tmp/new.csv'' None ''csv'')))
     \<notin> {''postgres'', ''snowflake'', ''bigquery''}
   \<and> SaveFile_execute local_world (job ''mysql_conn'' ''/tmp/new.csv'' None ''csv'') []
       = (Inl (AttributeError ''get_sqlalchemy_engine''),
          [HookInit (PostgresHook ''mysql_conn'' ''pagila''),
           HookInit (TempSnowflakeHook ''mysql_conn'' ''pagila'' ''public'' []),
           HookInit (BigQueryHook False ''mysql_conn'')])"
proof -
  let ?self = "job ''mysql_conn'' ''/tmp/new.csv'' None ''csv''"
  have c: "conn_type_of local_world (conn_id (input_table ?self))
             \<notin> {''postgres'', ''snowflake'', ''bigquery''}"
    by (simp add: local_world_def job_def named_def)
  have t: "conn_id (input_table ?self) = ''mysql_conn''" "database (input_table ?self) = ''pagila''"
    "schema (input_table ?self) = ''public''" "warehouse (input_table ?self) = []"
    by (simp_all add: job_def named_def)
  from unknown_conn_type_attribute_error [of local_world ?self "[]"] c
  show ?thesis by (simp add: t)
qed

end
